theory Spec2Isabelle
  imports Main
begin

section \<open>JavaScript values\<close>

text \<open>
  The file \<^verbatim>\<open>functions/index.paystack_only.backup.js\<close> holds two modules.  This
  theory is about the second one (from \<^verbatim>\<open>onCall, onRequest, HttpsError\<close> on) and
  its two handlers that take untrusted input, \<^verbatim>\<open>paystackWebhook\<close> and
  \<^verbatim>\<open>trackPing\<close>.  They read a parsed JSON body and coerce its fields with
  \<^verbatim>\<open>String(...)\<close>, \<^verbatim>\<open>Number(...)\<close>, \<^verbatim>\<open>||\<close> and truthiness tests.  The
  values and coercions are modelled first.

  An object is the list of its properties, one entry for each name (a lookup takes
  the first entry of a name).

  Numbers.  A finite number \<open>Fin m e\<close> stands for the decimal \<open>m * 10 ^ e\<close>; the
  binary rounding of doubles and the sign of zero are not represented (no code path
  of the handlers distinguishes \<^verbatim>\<open>-0\<close> from \<^verbatim>\<open>0\<close>).  Strings are lists of
  ASCII characters.
\<close>

datatype jsnum = NaN | PInf | NInf | Fin int int

datatype jsval =
    JUndefined
  | JNull
  | JBool bool
  | JNum jsnum
  | JStr string
  | JArr "jsval list"
  | JObj "(string \<times> jsval) list"

datatype exn = TypeError | InvalidPath

subsection \<open>Numbers\<close>

fun num_truthy :: "jsnum \<Rightarrow> bool" where
  "num_truthy NaN = False"
| "num_truthy (Fin m e) = (m \<noteq> 0)"
| "num_truthy PInf = True"
| "num_truthy NInf = True"

definition fin_less :: "int \<Rightarrow> int \<Rightarrow> int \<Rightarrow> int \<Rightarrow> bool" where
  "fin_less m e m' e' =
     (m * 10 ^ nat (e - min e e') < m' * 10 ^ nat (e' - min e e'))"

definition fin_eq :: "int \<Rightarrow> int \<Rightarrow> int \<Rightarrow> int \<Rightarrow> bool" where
  "fin_eq m e m' e' =
     (m * 10 ^ nat (e - min e e') = m' * 10 ^ nat (e' - min e e'))"

text \<open>\<^verbatim>\<open>a === b\<close> on two numbers.\<close>

fun num_eq :: "jsnum \<Rightarrow> jsnum \<Rightarrow> bool" where
  "num_eq (Fin m e) (Fin m' e') = fin_eq m e m' e'"
| "num_eq PInf PInf = True"
| "num_eq NInf NInf = True"
| "num_eq _ _ = False"

text \<open>\<^verbatim>\<open>a < b\<close> on two numbers (\<^verbatim>\<open>a > b\<close> is \<open>num_lt b a\<close>).\<close>

fun num_lt :: "jsnum \<Rightarrow> jsnum \<Rightarrow> bool" where
  "num_lt NaN _ = False"
| "num_lt _ NaN = False"
| "num_lt (Fin m e) (Fin m' e') = fin_less m e m' e'"
| "num_lt PInf _ = False"
| "num_lt _ PInf = True"
| "num_lt NInf NInf = False"
| "num_lt NInf _ = True"
| "num_lt _ NInf = False"

fun num_sign :: "jsnum \<Rightarrow> int" where
  "num_sign NaN = 0"
| "num_sign PInf = 1"
| "num_sign NInf = - 1"
| "num_sign (Fin m e) = sgn m"

text \<open>\<^verbatim>\<open>a * b\<close> on two numbers.\<close>

fun num_mul :: "jsnum \<Rightarrow> jsnum \<Rightarrow> jsnum" where
  "num_mul NaN _ = NaN"
| "num_mul _ NaN = NaN"
| "num_mul (Fin m e) (Fin m' e') = Fin (m * m') (e + e')"
| "num_mul a b =
     (if num_sign a * num_sign b = 0 then NaN
      else if 0 < num_sign a * num_sign b then PInf else NInf)"

fun num_neg :: "jsnum \<Rightarrow> jsnum" where
  "num_neg NaN = NaN"
| "num_neg PInf = NInf"
| "num_neg NInf = PInf"
| "num_neg (Fin m e) = Fin (- m) e"

subsection \<open>Strings: \<^verbatim>\<open>trim\<close>, \<^verbatim>\<open>toLowerCase\<close>, \<^verbatim>\<open>slice\<close>\<close>

definition is_ws :: "char \<Rightarrow> bool" where
  "is_ws c = (c \<in> set [CHR 0x09, CHR 0x0A, CHR 0x0B, CHR 0x0C, CHR 0x0D, CHR 0x20])"

definition trim :: "string \<Rightarrow> string" where
  "trim s = rev (dropWhile is_ws (rev (dropWhile is_ws s)))"

definition lower_char :: "char \<Rightarrow> char" where
  "lower_char c =
     (case map_of (zip ''ABCDEFGHIJKLMNOPQRSTUVWXYZ'' ''abcdefghijklmnopqrstuvwxyz'') c of
        Some l \<Rightarrow> l
      | None \<Rightarrow> c)"

definition toLowerCase :: "string \<Rightarrow> string" where
  "toLowerCase s = map lower_char s"

subsection \<open>\<^verbatim>\<open>Number(string)\<close>: the StringNumericLiteral grammar\<close>

definition digit_of :: "char \<Rightarrow> nat option" where
  "digit_of = map_of (zip ''0123456789'' [0, 1, 2, 3, 4, 5, 6, 7, 8, 9])"

definition hex_of :: "char \<Rightarrow> nat option" where
  "hex_of = map_of (zip ''0123456789abcdefABCDEF''
     [0, 1, 2, 3, 4, 5, 6, 7, 8, 9, 10, 11, 12, 13, 14, 15, 10, 11, 12, 13, 14, 15])"

definition is_digit :: "char \<Rightarrow> bool" where
  "is_digit c = (digit_of c \<noteq> None)"

definition radix_ok :: "nat \<Rightarrow> string \<Rightarrow> bool" where
  "radix_ok b s =
     (s \<noteq> [] \<and> list_all (\<lambda>c. case hex_of c of Some d \<Rightarrow> d < b | None \<Rightarrow> False) s)"

definition radix_val :: "int \<Rightarrow> string \<Rightarrow> int" where
  "radix_val b s =
     foldl (\<lambda>a c. a * b + (case hex_of c of Some d \<Rightarrow> int d | None \<Rightarrow> 0)) 0 s"

text \<open>\<^verbatim>\<open>0x..\<close>, \<^verbatim>\<open>0o..\<close> and \<^verbatim>\<open>0b..\<close> literals (never signed).\<close>

definition NonDecimalIntegerLiteral :: "string \<Rightarrow> jsnum option" where
  "NonDecimalIntegerLiteral s =
     (case s of
        z # p # ds \<Rightarrow>
          (if z \<noteq> CHR ''0'' then None
           else if p \<in> set ''xX'' \<and> radix_ok 16 ds then Some (Fin (radix_val 16 ds) 0)
           else if p \<in> set ''oO'' \<and> radix_ok 8 ds then Some (Fin (radix_val 8 ds) 0)
           else if p \<in> set ''bB'' \<and> radix_ok 2 ds then Some (Fin (radix_val 2 ds) 0)
           else None)
      | _ \<Rightarrow> None)"

definition DecimalDigits_ok :: "string \<Rightarrow> bool" where
  "DecimalDigits_ok s = (s \<noteq> [] \<and> list_all is_digit s)"

text \<open>The optional exponent part that ends a decimal literal.\<close>

definition ExponentPart :: "string \<Rightarrow> int option" where
  "ExponentPart s =
     (case s of
        [] \<Rightarrow> Some 0
      | c # r \<Rightarrow>
          (if c \<notin> set ''eE'' then None
           else (case r of
                   [] \<Rightarrow> None
                 | d # ds \<Rightarrow>
                     (if d = CHR ''+'' then
                        (if DecimalDigits_ok ds then Some (radix_val 10 ds) else None)
                      else if d = CHR ''-'' then
                        (if DecimalDigits_ok ds then Some (- radix_val 10 ds) else None)
                      else
                        (if DecimalDigits_ok r then Some (radix_val 10 r) else None)))))"

definition StrUnsignedDecimalLiteral :: "string \<Rightarrow> jsnum option" where
  "StrUnsignedDecimalLiteral s =
     (if s = ''Infinity'' then Some PInf
      else
        (let ip = takeWhile is_digit s; r = dropWhile is_digit s in
         case r of
           CHR ''.'' # r2 \<Rightarrow>
             (let fp = takeWhile is_digit r2; r3 = dropWhile is_digit r2 in
              if ip = [] \<and> fp = [] then None
              else map_option
                     (\<lambda>x. Fin (radix_val 10 (ip @ fp)) (x - int (length fp)))
                     (ExponentPart r3))
         | _ \<Rightarrow>
             (if ip = [] then None
              else map_option (\<lambda>x. Fin (radix_val 10 ip) x) (ExponentPart r))))"

definition StringToNumber :: "string \<Rightarrow> jsnum" where
  "StringToNumber s =
     (let t = trim s in
      if t = [] then Fin 0 0
      else (case NonDecimalIntegerLiteral t of
              Some n \<Rightarrow> n
            | None \<Rightarrow>
                (case t of
                   c # u \<Rightarrow>
                     (if c = CHR ''+'' then
                        (case StrUnsignedDecimalLiteral u of Some n \<Rightarrow> n | None \<Rightarrow> NaN)
                      else if c = CHR ''-'' then
                        (case StrUnsignedDecimalLiteral u of
                           Some n \<Rightarrow> num_neg n
                         | None \<Rightarrow> NaN)
                      else
                        (case StrUnsignedDecimalLiteral t of Some n \<Rightarrow> n | None \<Rightarrow> NaN))
                 | [] \<Rightarrow> Fin 0 0)))"

subsection \<open>\<^verbatim>\<open>String(number)\<close>\<close>

text \<open>The decimal digits of a number that is not negative.\<close>

function digits :: "int \<Rightarrow> string" where
  "digits n =
     (if n < 10 then [''0123456789'' ! nat n]
      else digits (n div 10) @ [''0123456789'' ! nat (n mod 10)])"
  by pat_completeness auto

termination
  by (relation "measure nat") auto

declare digits.simps [simp del]

definition strip_zeros :: "string \<Rightarrow> string" where
  "strip_zeros ds = rev (dropWhile (\<lambda>c. c = CHR ''0'') (rev ds))"

text \<open>
  Number::toString for a positive finite number \<open>a * 10 ^ e\<close>: with \<open>k\<close> significant
  digits and the decimal point after \<open>n\<close> of them, plain notation is used for
  \<open>-6 < n \<le> 21\<close> and exponent notation otherwise.
\<close>

definition fin_toString :: "int \<Rightarrow> int \<Rightarrow> string" where
  "fin_toString a e =
     (let ds0 = digits a;
          ds = strip_zeros ds0;
          k = int (length ds);
          n = int (length ds0) + e
      in if k \<le> n \<and> n \<le> 21 then ds @ replicate (nat (n - k)) (CHR ''0'')
         else if 0 < n \<and> n \<le> 21 then take (nat n) ds @ ''.'' @ drop (nat n) ds
         else if - 6 < n \<and> n \<le> 0 then ''0.'' @ replicate (nat (- n)) (CHR ''0'') @ ds
         else (let es = (if n - 1 < 0 then ''-'' else ''+'') @ digits \<bar>n - 1\<bar>
               in if k = 1 then ds @ ''e'' @ es
                  else take 1 ds @ ''.'' @ drop 1 ds @ ''e'' @ es))"

fun Number_toString :: "jsnum \<Rightarrow> string" where
  "Number_toString NaN = ''NaN''"
| "Number_toString PInf = ''Infinity''"
| "Number_toString NInf = ''-Infinity''"
| "Number_toString (Fin m e) =
     (if m = 0 then ''0''
      else (if m < 0 then ''-'' else '''') @ fin_toString \<bar>m\<bar> e)"

subsection \<open>Truthiness, \<^verbatim>\<open>||\<close>, property access\<close>

fun truthy :: "jsval \<Rightarrow> bool" where
  "truthy JUndefined = False"
| "truthy JNull = False"
| "truthy (JBool b) = b"
| "truthy (JNum n) = num_truthy n"
| "truthy (JStr s) = (s \<noteq> [])"
| "truthy (JArr xs) = True"
| "truthy (JObj kvs) = True"

text \<open>\<^verbatim>\<open>a || b\<close>\<close>

definition js_or :: "jsval \<Rightarrow> jsval \<Rightarrow> jsval" where
  "js_or a b = (if truthy a then a else b)"

text \<open>
  \<^verbatim>\<open>v.k\<close> for the property names the handlers read (\<^verbatim>\<open>event\<close>, \<^verbatim>\<open>data\<close>,
  \<^verbatim>\<open>reference\<close>, \<^verbatim>\<open>customer\<close>, \<^verbatim>\<open>email\<close>, \<^verbatim>\<open>amount\<close>, \<^verbatim>\<open>metadata\<close>,
  \<^verbatim>\<open>plan\<close>, \<^verbatim>\<open>sid\<close>, \<^verbatim>\<open>tok\<close>, \<^verbatim>\<open>lat\<close>, \<^verbatim>\<open>lng\<close>, \<^verbatim>\<open>acc\<close>,
  \<^verbatim>\<open>toMillis\<close>, \<^verbatim>\<open>seconds\<close>, \<^verbatim>\<open>_seconds\<close>): an own property of an object, and
  \<^verbatim>\<open>undefined\<close> on every other value that is not null or undefined (none of these
  names is a prototype property).  \<^verbatim>\<open>v?.k\<close> is the same, and \<^verbatim>\<open>undefined\<close> on null
  and undefined; the handlers use plain \<^verbatim>\<open>v.k\<close> only where \<^verbatim>\<open>v\<close> is truthy.
\<close>

fun get_prop :: "jsval \<Rightarrow> string \<Rightarrow> jsval" where
  "get_prop (JObj kvs) k = (case map_of kvs k of Some v \<Rightarrow> v | None \<Rightarrow> JUndefined)"
| "get_prop _ k = JUndefined"

subsection \<open>\<^verbatim>\<open>String(v)\<close> and \<^verbatim>\<open>Number(v)\<close>\<close>

text \<open>
  A parsed JSON object has no callable own property, so converting it to a primitive
  ends in \<^verbatim>\<open>Object.prototype.toString\<close>, unless an own \<^verbatim>\<open>toString\<close> member
  shadows it: then no conversion function is callable and a TypeError is thrown.  An array is
  joined with commas, null and undefined elements giving the empty string.
\<close>

fun ToString :: "jsval \<Rightarrow> exn + string"
  and join_elems :: "jsval list \<Rightarrow> exn + string" where
  "ToString JUndefined = Inr ''undefined''"
| "ToString JNull = Inr ''null''"
| "ToString (JBool b) = Inr (if b then ''true'' else ''false'')"
| "ToString (JNum n) = Inr (Number_toString n)"
| "ToString (JStr s) = Inr s"
| "ToString (JArr xs) = join_elems xs"
| "ToString (JObj kvs) =
     (if ''toString'' \<in> set (map fst kvs) then Inl TypeError else Inr ''[object Object]'')"
| "join_elems [] = Inr []"
| "join_elems (x # xs) =
     (case (if x = JUndefined \<or> x = JNull then Inr [] else ToString x) of
        Inl err \<Rightarrow> Inl err
      | Inr s \<Rightarrow>
          (if xs = [] then Inr s
           else (case join_elems xs of
                   Inl err \<Rightarrow> Inl err
                 | Inr t \<Rightarrow> Inr (s @ '','' @ t))))"

fun ToNumber :: "jsval \<Rightarrow> exn + jsnum" where
  "ToNumber JUndefined = Inr NaN"
| "ToNumber JNull = Inr (Fin 0 0)"
| "ToNumber (JBool b) = Inr (if b then Fin 1 0 else Fin 0 0)"
| "ToNumber (JNum n) = Inr n"
| "ToNumber (JStr s) = Inr (StringToNumber s)"
| "ToNumber v = (case ToString v of Inl err \<Rightarrow> Inl err | Inr s \<Rightarrow> Inr (StringToNumber s))"


section \<open>The document store\<close>

text \<open>
  Firestore is an external collaborator; its documents are modelled as association
  lists from field names to stored values.  A stored value is a JSON-like value, a
  Timestamp (identified by the number its \<^verbatim>\<open>toMillis()\<close> returns) or a map.
  Store calls are assumed to succeed when their document path is accepted.
\<close>

datatype fsval = FVal jsval | FTimestamp int | FMap "(string \<times> fsval) list"

type_synonym doc = "(string \<times> fsval) list"

fun put :: "'k \<Rightarrow> 'v \<Rightarrow> ('k \<times> 'v) list \<Rightarrow> ('k \<times> 'v) list" where
  "put k v [] = [(k, v)]"
| "put k v ((k', v') # kvs) = (if k = k' then (k, v) # kvs else (k', v') # put k v kvs)"

text \<open>
  \<^verbatim>\<open>ref.set(data, {merge: true})\<close>: every field of \<open>data\<close> replaces the stored one,
  a non-empty map merging field by field into a stored map; fields that \<open>data\<close> does
  not mention are kept.
\<close>

fun merge_fields :: "doc \<Rightarrow> doc \<Rightarrow> doc"
  and merge_val :: "fsval option \<Rightarrow> fsval \<Rightarrow> fsval" where
  "merge_fields old [] = old"
| "merge_fields old ((k, v) # rest) = merge_fields (put k (merge_val (map_of old k) v) old) rest"
| "merge_val (Some (FMap old)) (FMap (n # ns)) = FMap (merge_fields old (n # ns))"
| "merge_val _ v = v"

text \<open>
  The argument of \<^verbatim>\<open>collection.doc(id)\<close>: the SDK throws unless it is a non-empty
  string.  Identifiers with a slash address nested paths and are treated as rejected
  here; the identifiers of this application (payment references, organisation and
  student ids) have none.
\<close>

fun doc_id :: "jsval \<Rightarrow> string option" where
  "doc_id (JStr s) = (if s \<noteq> [] \<and> CHR ''/'' \<notin> set s then Some s else None)"
| "doc_id _ = None"

text \<open>
  The fields of a tracking-session document that \<^verbatim>\<open>trackPing\<close> reads.  They hold
  JSON-like values (\<open>JUndefined\<close> for an absent field); \<open>expiresAt\<close> may also hold a
  Firestore Timestamp.
\<close>

datatype expiry = ExpTimestamp int | ExpValue jsval

record tracking_session =
  sessionId :: jsval
  token :: jsval
  orgId :: jsval
  studentId :: jsval
  expiresAt :: expiry
  isActive :: jsval

record db =
  paystack_events :: "(string \<times> doc) list"
  users :: "(string \<times> doc) list"
  trackingSessions :: "tracking_session list"
  students :: "((string \<times> string) \<times> doc) list"
  locations :: "((string \<times> string) \<times> doc) list"

subsection \<open>Handlers as sequences of store calls\<close>

text \<open>
  A handler runs until its next \<^verbatim>\<open>await\<close> of a store call, and continues with the
  result; it ends by sending a response.  Every store call is one atomic operation of
  the store.
\<close>

datatype payload = Send string | Json_ok | Json_error string | Json_thrown exn

type_synonym response = "nat \<times> payload"

datatype io =
    Respond response
  | Ledger_get string "bool \<Rightarrow> io"
  | Ledger_set string doc io
  | Users_where_email string "string option \<Rightarrow> io"
  | User_set_merge string doc io
  | Sessions_where_sessionId string "tracking_session option \<Rightarrow> io"
  | Locations_add string string doc io
  | Student_set_merge string string doc io

datatype store_write =
    W_ledger string doc
  | W_user string doc
  | W_location string string doc
  | W_student string string doc

text \<open>\<^verbatim>\<open>collection("users").where("email", "==", email).limit(1)\<close>: the first match.\<close>

definition users_where_email :: "db \<Rightarrow> string \<Rightarrow> string option" where
  "users_where_email d email =
     map_option fst (find (\<lambda>(uid, u). map_of u ''email'' = Some (FVal (JStr email))) (users d))"

definition sessions_where_sessionId :: "db \<Rightarrow> string \<Rightarrow> tracking_session option" where
  "sessions_where_sessionId d sid = find (\<lambda>s. sessionId s = JStr sid) (trackingSessions d)"

definition user_set_merge :: "string \<Rightarrow> doc \<Rightarrow> db \<Rightarrow> db" where
  "user_set_merge uid upd d =
     d\<lparr>users := put uid (merge_fields (case map_of (users d) uid of Some u \<Rightarrow> u | None \<Rightarrow> []) upd)
                   (users d)\<rparr>"

definition student_set_merge :: "string \<Rightarrow> string \<Rightarrow> doc \<Rightarrow> db \<Rightarrow> db" where
  "student_set_merge org st upd d =
     d\<lparr>students :=
         put (org, st)
           (merge_fields (case map_of (students d) (org, st) of Some u \<Rightarrow> u | None \<Rightarrow> []) upd)
           (students d)\<rparr>"

text \<open>One store call of a handler: the rest of the handler, the store, what was written.\<close>

fun step :: "io \<Rightarrow> db \<Rightarrow> io \<times> db \<times> store_write list" where
  "step (Respond r) d = (Respond r, d, [])"
| "step (Ledger_get ref k) d = (k (map_of (paystack_events d) ref \<noteq> None), d, [])"
| "step (Ledger_set ref entry p) d =
     (p, d\<lparr>paystack_events := put ref entry (paystack_events d)\<rparr>, [W_ledger ref entry])"
| "step (Users_where_email email k) d = (k (users_where_email d email), d, [])"
| "step (User_set_merge uid upd p) d = (p, user_set_merge uid upd d, [W_user uid upd])"
| "step (Sessions_where_sessionId sid k) d = (k (sessions_where_sessionId d sid), d, [])"
| "step (Locations_add org st loc p) d =
     (p, d\<lparr>locations := locations d @ [((org, st), loc)]\<rparr>, [W_location org st loc])"
| "step (Student_set_merge org st upd p) d =
     (p, student_set_merge org st upd d, [W_student org st upd])"

text \<open>One request handled alone, from its first store call to its response.\<close>

primrec run :: "io \<Rightarrow> db \<Rightarrow> response \<times> db \<times> store_write list" where
  "run (Respond r) = (\<lambda>d. (r, d, []))"
| "run (Ledger_get ref k) = (\<lambda>d. run (k (map_of (paystack_events d) ref \<noteq> None)) d)"
| "run (Ledger_set ref entry p) =
     (\<lambda>d. case run p (d\<lparr>paystack_events := put ref entry (paystack_events d)\<rparr>) of
             (r, d', ws) \<Rightarrow> (r, d', W_ledger ref entry # ws))"
| "run (Users_where_email email k) = (\<lambda>d. run (k (users_where_email d email)) d)"
| "run (User_set_merge uid upd p) =
     (\<lambda>d. case run p (user_set_merge uid upd d) of
             (r, d', ws) \<Rightarrow> (r, d', W_user uid upd # ws))"
| "run (Sessions_where_sessionId sid k) = (\<lambda>d. run (k (sessions_where_sessionId d sid)) d)"
| "run (Locations_add org st loc p) =
     (\<lambda>d. case run p (d\<lparr>locations := locations d @ [((org, st), loc)]\<rparr>) of
             (r, d', ws) \<Rightarrow> (r, d', W_location org st loc # ws))"
| "run (Student_set_merge org st upd p) =
     (\<lambda>d. case run p (student_set_merge org st upd d) of
             (r, d', ws) \<Rightarrow> (r, d', W_student org st upd # ws))"

text \<open>
  Several requests in flight: the schedule names, store call by store call, the
  request that proceeds.  The result is what is left of each handler, the store and
  the writes in the order they reached the store.
\<close>

fun sched :: "nat list \<Rightarrow> io list \<Rightarrow> db \<Rightarrow> io list \<times> db \<times> store_write list" where
  "sched [] ps d = (ps, d, [])"
| "sched (i # rest) ps d =
     (if i < length ps then
        (case step (ps ! i) d of
           (p', d', ws) \<Rightarrow>
             (case sched rest (ps[i := p']) d' of
                (ps', d'', ws') \<Rightarrow> (ps', d'', ws @ ws')))
      else sched rest ps d)"


section \<open>Requests\<close>

text \<open>
  What a handler sees of a request and of its surroundings: the HTTP verb (\<^verbatim>\<open>req.method\<close>), the two
  headers that are read, the parsed body; the configured secret, the hex digest that
  \<^verbatim>\<open>crypto.createHmac("sha512", secret).update(raw).digest("hex")\<close> returns for
  the raw body, the clock \<^verbatim>\<open>Date.now()\<close> and the time that the store puts in for
  \<^verbatim>\<open>FieldValue.serverTimestamp()\<close> (both in milliseconds).
\<close>

record request =
  http_method :: string
  x_paystack_signature :: "string option"
  user_agent :: "string option"
  body :: jsval

record env =
  secret :: string
  computedHash :: string
  Date_now :: int
  serverTimestamp :: int

text \<open>\<^verbatim>\<open>v?.k\<close>\<close>

definition opt_prop :: "jsval \<Rightarrow> string \<Rightarrow> jsval" where
  "opt_prop v k = (if v = JUndefined \<or> v = JNull then JUndefined else get_prop v k)"

section \<open>Helpers of the source\<close>

text \<open>
  \<^verbatim>\<open>tsToMillis(ts)\<close>.  A Timestamp has \<^verbatim>\<open>toMillis\<close>.  On any other value a
  truthy \<^verbatim>\<open>toMillis\<close> member is not a function, and an exception of the
  multiplication is a TypeError of \<^verbatim>\<open>Number\<close>: both are caught, and 0 is returned.
\<close>

fun tsToMillis :: "expiry \<Rightarrow> jsnum" where
  "tsToMillis (ExpTimestamp ms) = Fin ms 0"
| "tsToMillis (ExpValue ts) =
     (if \<not> truthy ts then Fin 0 0
      else if truthy (get_prop ts ''toMillis'') then Fin 0 0
      else if truthy (get_prop ts ''seconds'') then
        (case ToNumber (get_prop ts ''seconds'') of
           Inl err \<Rightarrow> Fin 0 0
         | Inr n \<Rightarrow> num_mul n (Fin 1000 0))
      else if truthy (get_prop ts ''_seconds'') then
        (case ToNumber (get_prop ts ''_seconds'') of
           Inl err \<Rightarrow> Fin 0 0
         | Inr n \<Rightarrow> num_mul n (Fin 1000 0))
      else Fin 0 0)"

text \<open>\<^verbatim>\<open>normalizeEmail(email)\<close>\<close>

definition normalizeEmail :: "jsval \<Rightarrow> exn + string" where
  "normalizeEmail email =
     (case ToString (js_or email (JStr [])) of
        Inl err \<Rightarrow> Inl err
      | Inr s \<Rightarrow> Inr (toLowerCase (trim s)))"

text \<open>
  \<^verbatim>\<open>Buffer.from(s, "hex")\<close> decodes pairs of hex digits and stops at the first pair
  that is not one; \<^verbatim>\<open>timingSafeEqualHex\<close> (called on two strings) compares the two
  byte sequences.
\<close>

fun hex_decode :: "string \<Rightarrow> nat list" where
  "hex_decode (a # b # r) =
     (case (hex_of a, hex_of b) of
        (Some x, Some y) \<Rightarrow> (16 * x + y) # hex_decode r
      | _ \<Rightarrow> [])"
| "hex_decode _ = []"

definition timingSafeEqualHex :: "string \<Rightarrow> string \<Rightarrow> bool" where
  "timingSafeEqualHex a b =
     (let aa = hex_decode a; bb = hex_decode b
      in if length aa \<noteq> length bb then False else aa = bb)"

section \<open>\<^verbatim>\<open>paystackWebhook\<close>\<close>

definition AMT_MONTHLY :: jsnum where "AMT_MONTHLY = Fin (100 * 100) 0"
definition AMT_YEARLY :: jsnum where "AMT_YEARLY = Fin (900 * 100) 0"
definition AMT_LIFETIME :: jsnum where "AMT_LIFETIME = Fin (5000 * 100) 0"
definition AMT_COMMUNITY :: jsnum where "AMT_COMMUNITY = Fin (5 * 100) 0"

text \<open>
  The classification of the handler (the assignments to \<^verbatim>\<open>plan\<close> and \<^verbatim>\<open>days\<close>),
  from the normalised metadata plan and the amount; \<open>None\<close> is \<^verbatim>\<open>days = null\<close>.
\<close>

definition classify :: "string \<Rightarrow> jsnum \<Rightarrow> string \<times> int option" where
  "classify metaPlan amount =
     (if metaPlan \<noteq> [] then
        (if metaPlan \<in> set [''monthly'', ''yearly'', ''lifetime'', ''community''] then
           (metaPlan,
            if metaPlan = ''monthly'' then Some 30
            else if metaPlan = ''yearly'' then Some 365 else None)
         else (''pending'', None))
      else if num_eq amount AMT_MONTHLY then (''monthly'', Some 30)
      else if num_eq amount AMT_YEARLY then (''yearly'', Some 365)
      else if num_eq amount AMT_LIFETIME then (''lifetime'', None)
      else if num_eq amount AMT_COMMUNITY then (''community'', None)
      else (''pending'', None))"

text \<open>The object \<^verbatim>\<open>updates\<close> that is written to the user document.\<close>

definition updates :: "env \<Rightarrow> string \<Rightarrow> int option \<Rightarrow> jsval \<Rightarrow> doc" where
  "updates env plan days reference =
     [(''plan'', FVal (JStr plan)),
      (''status'', FVal (JStr (if plan = ''pending'' then ''inactive'' else ''active''))),
      (''lastPaymentRef'', FVal (js_or reference JNull)),
      (''updatedAt'', FTimestamp (serverTimestamp env)),
      (''trialEndsAt'', FVal JNull),
      (''subscriptionEndsAt'',
         (case days of
            Some n \<Rightarrow>
              (if n \<noteq> 0 then FTimestamp (Date_now env + n * 24 * 60 * 60 * 1000)
               else FVal JNull)
          | None \<Rightarrow> FVal JNull))]"

text \<open>The document that records a processed payment reference.\<close>

definition ledger_entry :: "env \<Rightarrow> string \<Rightarrow> jsnum \<Rightarrow> doc" where
  "ledger_entry env email amount =
     [(''createdAt'', FTimestamp (serverTimestamp env)),
      (''email'', FVal (JStr email)),
      (''amount'', FVal (JNum amount))]"

text \<open>The handler from the classification on, after the duplicate check.\<close>

definition webhook_project :: "env \<Rightarrow> jsval \<Rightarrow> jsval \<Rightarrow> string \<Rightarrow> jsnum \<Rightarrow> io" where
  "webhook_project env data reference email amount =
     (case ToString (js_or (opt_prop (get_prop data ''metadata'') ''plan'') (JStr [])) of
        Inl err \<Rightarrow> Respond (500, Send ''Server error'')
      | Inr s \<Rightarrow>
          (let metaPlan = toLowerCase (trim s);
               plan = fst (classify metaPlan amount);
               days = snd (classify metaPlan amount)
           in Users_where_email email
                (\<lambda>userSnap.
                   case userSnap of
                     None \<Rightarrow> Respond (200, Send ''No matching user'')
                   | Some uid \<Rightarrow>
                       User_set_merge uid (updates env plan days reference)
                         (Respond (200, Send ''OK'')))))"

definition paystackWebhook :: "env \<Rightarrow> request \<Rightarrow> io" where
  "paystackWebhook env req =
     (if http_method req \<noteq> ''POST'' then Respond (405, Send ''Method Not Allowed'')
      else if secret env = [] then Respond (500, Send ''Missing secret'')
      else
        (case x_paystack_signature req of
           None \<Rightarrow> Respond (400, Send ''Missing signature'')
         | Some signature \<Rightarrow>
             (if signature = [] then Respond (400, Send ''Missing signature'')
              else if \<not> timingSafeEqualHex (computedHash env) signature then
                Respond (400, Send ''Invalid signature'')
              else if opt_prop (body req) ''event'' \<noteq> JStr ''charge.success'' then
                Respond (200, Send ''Ignored'')
              else
                (let data = js_or (get_prop (body req) ''data'') (JObj []);
                     reference = js_or (get_prop data ''reference'') JNull
                 in case normalizeEmail
                           (js_or (opt_prop (get_prop data ''customer'') ''email'') JNull) of
                      Inl err \<Rightarrow> Respond (500, Send ''Server error'')
                    | Inr email \<Rightarrow>
                        (case ToNumber (js_or (get_prop data ''amount'') (JNum (Fin 0 0))) of
                           Inl err \<Rightarrow> Respond (500, Send ''Server error'')
                         | Inr amount \<Rightarrow>
                             (if email = [] then Respond (200, Send ''No email'')
                              else if truthy reference then
                                (case doc_id reference of
                                   None \<Rightarrow> Respond (500, Send ''Server error'')
                                 | Some ref \<Rightarrow>
                                     Ledger_get ref
                                       (\<lambda>exists.
                                          if exists then Respond (200, Send ''Duplicate'')
                                          else
                                            Ledger_set ref (ledger_entry env email amount)
                                              (webhook_project env data reference email amount)))
                              else webhook_project env data reference email amount))))))"

section \<open>\<^verbatim>\<open>trackPing\<close>\<close>

text \<open>The history record \<^verbatim>\<open>loc\<close> and the snapshot that is merged into the student.\<close>

definition loc ::
  "env \<Rightarrow> request \<Rightarrow> string \<Rightarrow> jsnum \<Rightarrow> jsnum \<Rightarrow> jsnum \<Rightarrow> tracking_session \<Rightarrow> doc" where
  "loc env req sid lat lng acc sess =
     [(''sid'', FVal (JStr sid)),
      (''orgId'', FVal (orgId sess)),
      (''studentId'', FVal (studentId sess)),
      (''lat'', FVal (JNum lat)),
      (''lng'', FVal (JNum lng)),
      (''acc'', FVal (JNum acc)),
      (''createdAt'', FTimestamp (serverTimestamp env)),
      (''ua'', FVal (JStr (take 180 (case user_agent req of Some ua \<Rightarrow> ua | None \<Rightarrow> []))))]"

definition lastLocation :: "env \<Rightarrow> string \<Rightarrow> jsnum \<Rightarrow> jsnum \<Rightarrow> jsnum \<Rightarrow> doc" where
  "lastLocation env sid lat lng acc =
     [(''lastLocation'',
       FMap [(''lat'', FVal (JNum lat)),
             (''lng'', FVal (JNum lng)),
             (''acc'', FVal (JNum acc)),
             (''sid'', FVal (JStr sid)),
             (''updatedAt'', FTimestamp (serverTimestamp env))])]"

text \<open>The handler after the session lookup, from \<^verbatim>\<open>const sess = q.docs[0].data()\<close> on.\<close>

definition ping_session ::
  "env \<Rightarrow> request \<Rightarrow> string \<Rightarrow> string \<Rightarrow> jsnum \<Rightarrow> jsnum \<Rightarrow> jsnum \<Rightarrow> tracking_session \<Rightarrow> io" where
  "ping_session env req sid tok lat lng acc sess =
     (if \<not> truthy (isActive sess) then Respond (403, Json_error ''session inactive'')
      else
        (case ToString (js_or (token sess) (JStr [])) of
           Inl err \<Rightarrow> Respond (500, Json_thrown err)
         | Inr stored \<Rightarrow>
             (if stored \<noteq> tok then Respond (403, Json_error ''bad token'')
              else
                (let exp = tsToMillis (expiresAt sess) in
                 if num_truthy exp \<and> num_lt exp (Fin (Date_now env) 0) then
                   Respond (403, Json_error ''session expired'')
                 else
                   (case doc_id (orgId sess) of
                      None \<Rightarrow> Respond (500, Json_thrown InvalidPath)
                    | Some org \<Rightarrow>
                        (case doc_id (studentId sess) of
                           None \<Rightarrow> Respond (500, Json_thrown InvalidPath)
                         | Some st \<Rightarrow>
                             Locations_add org st (loc env req sid lat lng acc sess)
                               (Student_set_merge org st (lastLocation env sid lat lng acc)
                                  (Respond (200, Json_ok)))))))))"

definition trackPing :: "env \<Rightarrow> request \<Rightarrow> io" where
  "trackPing env req =
     (if http_method req \<noteq> ''POST'' then Respond (405, Json_error ''POST only'')
      else
        (let b = js_or (body req) (JObj []) in
         case ToString (js_or (get_prop b ''sid'') (JStr [])) of
           Inl err \<Rightarrow> Respond (500, Json_thrown err)
         | Inr s \<Rightarrow>
             (case ToString (js_or (get_prop b ''tok'') (JStr [])) of
                Inl err \<Rightarrow> Respond (500, Json_thrown err)
              | Inr t \<Rightarrow>
                  (case ToNumber (get_prop b ''lat'') of
                     Inl err \<Rightarrow> Respond (500, Json_thrown err)
                   | Inr lat \<Rightarrow>
                       (case ToNumber (get_prop b ''lng'') of
                          Inl err \<Rightarrow> Respond (500, Json_thrown err)
                        | Inr lng \<Rightarrow>
                            (case ToNumber (js_or (get_prop b ''acc'') (JNum (Fin 0 0))) of
                               Inl err \<Rightarrow> Respond (500, Json_thrown err)
                             | Inr acc \<Rightarrow>
                                 (let sid = trim s; tok = trim t in
                                  if sid = [] \<or> tok = [] then
                                    Respond (400, Json_error ''sid and tok required'')
                                  else if lat = NaN \<or> lng = NaN then
                                    Respond (400, Json_error ''lat/lng invalid'')
                                  else
                                    Sessions_where_sessionId sid
                                      (\<lambda>q. case q of
                                              None \<Rightarrow>
                                                Respond (404, Json_error ''session not found'')
                                            | Some sess \<Rightarrow>
                                                ping_session env req sid tok lat lng acc sess))))))))"

text \<open>
  The document that \<^verbatim>\<open>createTrackingSession\<close> stores for a new session, as far
  as \<^verbatim>\<open>trackPing\<close> reads it; \<open>issued\<close> is \<^verbatim>\<open>Date.now()\<close> at issuance.
\<close>

definition new_session :: "string \<Rightarrow> string \<Rightarrow> string \<Rightarrow> string \<Rightarrow> int \<Rightarrow> tracking_session" where
  "new_session sid tok org st issued =
     \<lparr>sessionId = JStr sid, token = JStr tok, orgId = JStr org, studentId = JStr st,
      expiresAt = ExpTimestamp (issued + 24 * 60 * 60 * 1000), isActive = JBool True\<rparr>"


section \<open>Vocabulary of the properties\<close>

text \<open>
  The values that \<^verbatim>\<open>paystackWebhook\<close> computes from its request before the first
  store call, named as in the source (\<^verbatim>\<open>data\<close>, \<^verbatim>\<open>reference\<close>, \<^verbatim>\<open>email\<close>,
  \<^verbatim>\<open>amount\<close>, \<^verbatim>\<open>metaPlan\<close>), and its gates.
\<close>

definition event_data :: "request \<Rightarrow> jsval" where
  "event_data req = js_or (get_prop (body req) ''data'') (JObj [])"

definition event_reference :: "request \<Rightarrow> jsval" where
  "event_reference req = js_or (get_prop (event_data req) ''reference'') JNull"

definition event_email :: "request \<Rightarrow> exn + string" where
  "event_email req =
     normalizeEmail (js_or (opt_prop (get_prop (event_data req) ''customer'') ''email'') JNull)"

definition event_amount :: "request \<Rightarrow> exn + jsnum" where
  "event_amount req = ToNumber (js_or (get_prop (event_data req) ''amount'') (JNum (Fin 0 0)))"

definition event_metaPlan :: "request \<Rightarrow> exn + string" where
  "event_metaPlan req =
     (case ToString (js_or (opt_prop (get_prop (event_data req) ''metadata'') ''plan'') (JStr [])) of
        Inl err \<Rightarrow> Inl err
      | Inr s \<Rightarrow> Inr (toLowerCase (trim s)))"

text \<open>A POST with a configured secret and a signature that matches the digest.\<close>

definition authentic :: "env \<Rightarrow> request \<Rightarrow> bool" where
  "authentic env req =
     (http_method req = ''POST'' \<and> secret env \<noteq> [] \<and>
      (case x_paystack_signature req of
         None \<Rightarrow> False
       | Some signature \<Rightarrow> signature \<noteq> [] \<and> timingSafeEqualHex (computedHash env) signature))"

definition charge_success :: "request \<Rightarrow> bool" where
  "charge_success req = (opt_prop (body req) ''event'' = JStr ''charge.success'')"

text \<open>The values that \<^verbatim>\<open>trackPing\<close> computes from its request.\<close>

definition ping_body :: "request \<Rightarrow> jsval" where
  "ping_body req = js_or (body req) (JObj [])"

definition ping_sid :: "request \<Rightarrow> exn + string" where
  "ping_sid req =
     (case ToString (js_or (get_prop (ping_body req) ''sid'') (JStr [])) of
        Inl err \<Rightarrow> Inl err
      | Inr s \<Rightarrow> Inr (trim s))"

definition ping_tok :: "request \<Rightarrow> exn + string" where
  "ping_tok req =
     (case ToString (js_or (get_prop (ping_body req) ''tok'') (JStr [])) of
        Inl err \<Rightarrow> Inl err
      | Inr s \<Rightarrow> Inr (trim s))"

definition ping_lat :: "request \<Rightarrow> exn + jsnum" where
  "ping_lat req = ToNumber (get_prop (ping_body req) ''lat'')"

definition ping_lng :: "request \<Rightarrow> exn + jsnum" where
  "ping_lng req = ToNumber (get_prop (ping_body req) ''lng'')"

definition ping_acc :: "request \<Rightarrow> exn + jsnum" where
  "ping_acc req = ToNumber (js_or (get_prop (ping_body req) ''acc'') (JNum (Fin 0 0)))"

text \<open>Writes by collection, and the response a handler has reached.\<close>

fun is_user_write :: "store_write \<Rightarrow> bool" where
  "is_user_write (W_user uid upd) = True"
| "is_user_write _ = False"

fun is_ledger_write :: "store_write \<Rightarrow> bool" where
  "is_ledger_write (W_ledger ref entry) = True"
| "is_ledger_write _ = False"

definition user_writes :: "store_write list \<Rightarrow> store_write list" where
  "user_writes ws = filter is_user_write ws"

definition ledger_writes :: "store_write list \<Rightarrow> store_write list" where
  "ledger_writes ws = filter is_ledger_write ws"

fun response_of :: "io \<Rightarrow> response option" where
  "response_of (Respond r) = Some r"
| "response_of _ = None"

text \<open>A stored value that replaces the old one when merged (anything but a non-empty map).\<close>

fun plain :: "fsval \<Rightarrow> bool" where
  "plain (FMap (n # ns)) = False"
| "plain _ = True"

text \<open>The field of a user document, \<open>None\<close> when the user or the field is absent.\<close>

definition user_field :: "db \<Rightarrow> string \<Rightarrow> string \<Rightarrow> fsval option" where
  "user_field d uid k = (case map_of (users d) uid of Some u \<Rightarrow> map_of u k | None \<Rightarrow> None)"

text \<open>A field of the snapshot \<^verbatim>\<open>lastLocation\<close> of a student document.\<close>

definition lastLocation_field :: "db \<Rightarrow> string \<Rightarrow> string \<Rightarrow> string \<Rightarrow> fsval option" where
  "lastLocation_field d org st k =
     (case map_of (students d) (org, st) of
        Some s \<Rightarrow> (case map_of s ''lastLocation'' of Some (FMap m) \<Rightarrow> map_of m k | _ \<Rightarrow> None)
      | None \<Rightarrow> None)"

text \<open>The same request delivered twice, the second after the first has been answered.\<close>

definition submit_twice ::
  "env \<Rightarrow> env \<Rightarrow> request \<Rightarrow> db \<Rightarrow> (response \<times> db \<times> store_write list) \<times> (response \<times> db \<times> store_write list)" where
  "submit_twice env1 env2 req d =
     (let first = run (paystackWebhook env1 req) d
      in (first, run (paystackWebhook env2 req) (fst (snd first))))"

text \<open>
  The classifier as the specification words it: a recognised metadata plan wins, and
  everything else, an unrecognised plan name included, goes by the amount.
\<close>

definition spec_classify :: "string \<Rightarrow> jsnum \<Rightarrow> string \<times> int option" where
  "spec_classify metaPlan amount =
     (if metaPlan = ''monthly'' then (''monthly'', Some 30)
      else if metaPlan = ''yearly'' then (''yearly'', Some 365)
      else if metaPlan = ''lifetime'' then (''lifetime'', None)
      else if metaPlan = ''community'' then (''community'', None)
      else if num_eq amount (Fin 10000 0) then (''monthly'', Some 30)
      else if num_eq amount (Fin 90000 0) then (''yearly'', Some 365)
      else if num_eq amount (Fin 500000 0) then (''lifetime'', None)
      else if num_eq amount (Fin 500 0) then (''community'', None)
      else (''pending'', None))"

subsection \<open>A concrete deployment for the examples\<close>

definition ex_digest :: string where
  "ex_digest = concat (replicate 64 ''5c'')"

definition ex_env :: env where
  "ex_env = \<lparr>secret = ''sk_live_0123'', computedHash = ex_digest,
             Date_now = 1700000000000, serverTimestamp = 1700000000123\<rparr>"

definition ex_later :: env where
  "ex_later = \<lparr>secret = ''sk_live_0123'', computedHash = ex_digest,
               Date_now = 1700000060000, serverTimestamp = 1700000060123\<rparr>"

definition ex_next_day :: env where
  "ex_next_day = \<lparr>secret = ''sk_live_0123'', computedHash = ex_digest,
                  Date_now = 1700090000000, serverTimestamp = 1700090000123\<rparr>"

definition post :: "jsval \<Rightarrow> request" where
  "post b = \<lparr>http_method = ''POST'', x_paystack_signature = Some ex_digest,
             user_agent = Some ''probe/1.0'', body = b\<rparr>"

definition charge :: "string \<Rightarrow> string \<Rightarrow> (string \<times> jsval) list \<Rightarrow> jsval" where
  "charge reference email extra =
     JObj [(''event'', JStr ''charge.success''),
           (''data'', JObj ([(''reference'', JStr reference),
                            (''customer'', JObj [(''email'', JStr email)])] @ extra))]"

definition ex_token :: string where
  "ex_token = ''q7Zp2LmX9aB4cD6eF8gH0jK1nR3sT5vW''"

definition ex_session :: tracking_session where
  "ex_session = new_session ''SID_lx1abc_K7QPM'' ex_token ''org1'' ''st1'' 1699990000000"

definition ex_db :: db where
  "ex_db =
     \<lparr>paystack_events = [],
      users = [(''u1'', [(''email'', FVal (JStr ''a@x.com'')),
                         (''name'', FVal (JStr ''Amina'')),
                         (''plan'', FVal (JStr ''monthly'')),
                         (''status'', FVal (JStr ''active'')),
                         (''subscriptionEndsAt'', FTimestamp 1702000000000)])],
      trackingSessions = [ex_session],
      students = [((''org1'', ''st1''), [(''name'', FVal (JStr ''Kido''))])],
      locations = []\<rparr>"

definition ex_monthly :: request where
  "ex_monthly = post (charge ''R1'' ''a@x.com'' [(''amount'', JNum (Fin 10000 0))])"

definition ex_gold :: request where
  "ex_gold = post (charge ''R2'' ''a@x.com''
     [(''amount'', JNum (Fin 10000 0)), (''metadata'', JObj [(''plan'', JStr ''gold'')])])"

definition ex_odd_amount :: request where
  "ex_odd_amount = post (charge ''R3'' ''a@x.com'' [(''amount'', JNum (Fin 12345 0))])"

definition ex_stranger :: request where
  "ex_stranger = post (charge ''R4'' ''nobody@x.com'' [(''amount'', JNum (Fin 10000 0))])"

definition ex_no_amount :: request where
  "ex_no_amount = post (charge ''R6'' ''a@x.com'' [])"

definition ex_unprintable_plan :: request where
  "ex_unprintable_plan = post (charge ''R7'' ''a@x.com''
     [(''amount'', JNum (Fin 10000 0)),
      (''metadata'', JObj [(''plan'', JObj [(''toString'', JNum (Fin 1 0))])])])"

definition ex_text_amount :: request where
  "ex_text_amount = post (charge ''R5'' ''a@x.com'' [(''amount'', JStr ''abc'')])"

definition ping :: "jsval \<Rightarrow> jsval \<Rightarrow> jsval \<Rightarrow> request" where
  "ping lat lng acc =
     post (JObj [(''sid'', JStr ''SID_lx1abc_K7QPM''), (''tok'', JStr ex_token),
                 (''lat'', lat), (''lng'', lng), (''acc'', acc)])"

definition ex_ping :: request where
  "ex_ping = ping (JNum (Fin (- 12921) (- 4))) (JNum (Fin 368219 (- 4))) (JNum (Fin 12 0))"

definition ex_ping_text_acc :: request where
  "ex_ping_text_acc = ping (JNum (Fin (- 12921) (- 4))) (JNum (Fin 368219 (- 4))) (JStr ''abc'')"

definition ex_ping_text_lat :: request where
  "ex_ping_text_lat = ping (JStr ''north'') (JNum (Fin 368219 (- 4))) (JNum (Fin 12 0))"

text \<open>A store whose one session carries an expiry instant before 1970.\<close>

definition ex_db_old_expiry :: db where
  "ex_db_old_expiry =
     \<lparr>paystack_events = [], users = [],
      trackingSessions = [ex_session\<lparr>expiresAt := ExpTimestamp (- 1000)\<rparr>],
      students = [], locations = []\<rparr>"

text \<open>A store whose one session has no \<^verbatim>\<open>expiresAt\<close> field.\<close>

definition ex_db_no_expiry :: db where
  "ex_db_no_expiry =
     \<lparr>paystack_events = [], users = [],
      trackingSessions = [ex_session\<lparr>expiresAt := ExpValue JUndefined\<rparr>],
      students = [], locations = []\<rparr>"

section \<open>Basic facts\<close>

lemma map_of_put: "map_of (put k v kvs) k' = (if k' = k then Some v else map_of kvs k')"
  by (induction kvs) auto

lemma count_put_fresh:
  "map_of kvs k = None \<Longrightarrow> length (filter (\<lambda>kv. fst kv = k) (put k v kvs)) = 1"
  by (induction kvs) (auto split: if_splits)

lemma merge_val_plain: "plain v \<Longrightarrow> merge_val old v = v"
  by (cases "(old, v)" rule: merge_val.cases) auto

lemma map_of_merge_fields_other:
  "k \<notin> fst ` set upd \<Longrightarrow> map_of (merge_fields old upd) k = map_of old k"
  by (induction upd arbitrary: old) (auto simp: map_of_put)

lemma map_of_merge_fields_plain:
  "distinct (map fst upd) \<Longrightarrow> list_all (\<lambda>kv. plain (snd kv)) upd \<Longrightarrow>
   map_of (merge_fields old upd) k =
     (case map_of upd k of Some v \<Rightarrow> Some v | None \<Rightarrow> map_of old k)"
proof (induction upd arbitrary: old)
  case Nil
  then show ?case by simp
next
  case (Cons kv upd)
  obtain k' v' where kv: "kv = (k', v')" by (cases kv)
  show ?case
  proof (cases "k = k'")
    case True
    with Cons.prems kv have "k \<notin> fst ` set upd" by auto
    then have "map_of (merge_fields (put k' (merge_val (map_of old k') v') old) upd) k
        = map_of (put k' (merge_val (map_of old k') v') old) k"
      by (rule map_of_merge_fields_other)
    with True kv Cons.prems show ?thesis by (simp add: map_of_put merge_val_plain)
  next
    case False
    with Cons kv show ?thesis by (simp add: map_of_put split: option.splits)
  qed
qed

lemma doc_id_Some: "doc_id v = Some s \<Longrightarrow> v = JStr s \<and> s \<noteq> [] \<and> truthy v"
  by (cases v) (auto split: if_splits)

lemma fin_less_millis [simp]: "fin_less a 0 b 0 = (a < b)"
  by (simp add: fin_less_def)

text \<open>Handling a request alone is taking its store calls one after the other.\<close>

lemma step_run:
  "step p d = (p', d', ws) \<Longrightarrow>
   run p d = (case run p' d' of (r, d'', ws') \<Rightarrow> (r, d'', ws @ ws'))"
  by (cases p) (auto split: prod.splits)

lemma sched_alone:
  "sched (replicate n 0) [p] d = (ps, d', ws) \<Longrightarrow>
   \<exists>p'. ps = [p'] \<and> run p d = (case run p' d' of (r, d'', ws') \<Rightarrow> (r, d'', ws @ ws'))"
proof (induction n arbitrary: p d ps d' ws)
  case 0
  then show ?case by (auto split: prod.splits)
next
  case (Suc n)
  obtain p1 d1 w1 where s: "step p d = (p1, d1, w1)"
    by (cases "step p d") auto
  obtain ps2 d2 w2 where r: "sched (replicate n 0) [p1] d1 = (ps2, d2, w2)"
    by (cases "sched (replicate n 0) [p1] d1") auto
  from Suc.prems s r have eq: "ps = ps2" "d' = d2" "ws = w1 @ w2"
    by auto
  from Suc.IH [OF r] obtain p' where p': "ps2 = [p']"
    and run1: "run p1 d1 = (case run p' d2 of (r, d'', ws') \<Rightarrow> (r, d'', w2 @ ws'))"
    by auto
  from step_run [OF s] run1 eq p' show ?case
    by (auto split: prod.splits)
qed

text \<open>The coercions on a few values, as a JavaScript engine gives them.\<close>

lemma coercion_examples:
  "StringToNumber ''abc'' = NaN"
  "StringToNumber '' 10000 '' = Fin 10000 0"
  "StringToNumber ''1.5e3'' = Fin 15 2"
  "StringToNumber ''-.5'' = Fin (- 5) (- 1)"
  "StringToNumber ''0x1F'' = Fin 31 0"
  "StringToNumber [] = Fin 0 0"
  "StringToNumber ''1e'' = NaN"
  "Number_toString (Fin 15 (- 1)) = ''1.5''"
  "Number_toString (Fin 10000 0) = ''10000''"
  "Number_toString (Fin 123 (- 9)) = ''1.23e-7''"
  "Number_toString (Fin 1 21) = ''1e+21''"
  "ToString (JArr [JNum (Fin 1 0), JNull, JStr ''a'']) = Inr ''1,,a''"
  "ToNumber (JArr [JStr ''5'']) = Inr (Fin 5 0)"
  "ToNumber (JObj []) = Inr NaN"
  "ToNumber (JObj [(''toString'', JNull)]) = Inl TypeError"
  "ToNumber JNull = Inr (Fin 0 0)"
  "trim '' a b '' = ''a b''"
  "toLowerCase ''Yearly'' = ''yearly''"
  "num_eq (Fin 1 4) (Fin 10000 0)"
  "tsToMillis (ExpValue (JObj [(''seconds'', JNum (Fin 5 0))])) = Fin 5000 0"
  "tsToMillis (ExpValue (JNum (Fin 1700000000000 0))) = Fin 0 0"
  by code_simp+

section \<open>The webhook, gate by gate\<close>

lemma paystackWebhook_gated:
  assumes "authentic env req" "charge_success req"
    and "event_email req = Inr email" "email \<noteq> []" "event_amount req = Inr amount"
  shows "paystackWebhook env req =
     (if truthy (event_reference req) then
        (case doc_id (event_reference req) of
           None \<Rightarrow> Respond (500, Send ''Server error'')
         | Some ref \<Rightarrow>
             Ledger_get ref
               (\<lambda>exists.
                  if exists then Respond (200, Send ''Duplicate'')
                  else Ledger_set ref (ledger_entry env email amount)
                         (webhook_project env (event_data req) (event_reference req) email amount)))
      else webhook_project env (event_data req) (event_reference req) email amount)"
  using assms
  unfolding paystackWebhook_def authentic_def charge_success_def event_email_def
    event_amount_def event_reference_def event_data_def
  by (auto simp: Let_def split: option.splits)

lemma webhook_project_io:
  assumes "event_metaPlan req = Inr metaPlan"
  shows "webhook_project env (event_data req) reference email amount =
     Users_where_email email
       (\<lambda>userSnap.
          case userSnap of
            None \<Rightarrow> Respond (200, Send ''No matching user'')
          | Some uid \<Rightarrow>
              User_set_merge uid
                (updates env (fst (classify metaPlan amount)) (snd (classify metaPlan amount))
                   reference)
                (Respond (200, Send ''OK'')))"
  using assms
  unfolding webhook_project_def event_metaPlan_def
  by (auto simp: Let_def split: sum.splits)

lemma run_webhook_project:
  assumes "event_metaPlan req = Inr metaPlan"
  shows "run (webhook_project env (event_data req) reference email amount) d =
     (case users_where_email d email of
        None \<Rightarrow> ((200, Send ''No matching user''), d, [])
      | Some uid \<Rightarrow>
          ((200, Send ''OK''),
           user_set_merge uid
             (updates env (fst (classify metaPlan amount)) (snd (classify metaPlan amount))
                reference) d,
           [W_user uid
             (updates env (fst (classify metaPlan amount)) (snd (classify metaPlan amount))
                reference)]))"
  using assms
  unfolding webhook_project_def event_metaPlan_def
  by (auto simp: Let_def split: sum.splits option.splits)

lemma users_where_email_ledger [simp]:
  "users_where_email (d\<lparr>paystack_events := x\<rparr>) email = users_where_email d email"
  by (simp add: users_where_email_def)

lemma user_set_merge_ledger [simp]:
  "paystack_events (user_set_merge uid upd d) = paystack_events d"
  by (simp add: user_set_merge_def)

lemma run_paystackWebhook_accepted:
  assumes "authentic env req" "charge_success req"
    and "event_email req = Inr email" "email \<noteq> []" "event_amount req = Inr amount"
    and "event_metaPlan req = Inr metaPlan"
    and "upd = updates env (fst (classify metaPlan amount)) (snd (classify metaPlan amount))
                 (event_reference req)"
    and "entry = ledger_entry env email amount"
  shows "run (paystackWebhook env req) d =
     (if truthy (event_reference req) then
        (case doc_id (event_reference req) of
           None \<Rightarrow> ((500, Send ''Server error''), d, [])
         | Some ref \<Rightarrow>
             (if map_of (paystack_events d) ref \<noteq> None then ((200, Send ''Duplicate''), d, [])
              else
                (case users_where_email d email of
                   None \<Rightarrow>
                     ((200, Send ''No matching user''),
                      d\<lparr>paystack_events := put ref entry (paystack_events d)\<rparr>,
                      [W_ledger ref entry])
                 | Some uid \<Rightarrow>
                     ((200, Send ''OK''),
                      user_set_merge uid upd
                        (d\<lparr>paystack_events := put ref entry (paystack_events d)\<rparr>),
                      [W_ledger ref entry, W_user uid upd]))))
      else
        (case users_where_email d email of
           None \<Rightarrow> ((200, Send ''No matching user''), d, [])
         | Some uid \<Rightarrow> ((200, Send ''OK''), user_set_merge uid upd d, [W_user uid upd])))"
  using assms(7,8)
  by (simp add: paystackWebhook_gated [OF assms(1-5)] run_webhook_project [OF assms(6)]
      split: option.splits)

lemma webhook_project_throws:
  assumes "event_metaPlan req = Inl err"
  shows "webhook_project env (event_data req) reference email amount =
     Respond (500, Send ''Server error'')"
  using assms
  unfolding webhook_project_def event_metaPlan_def
  by (auto split: sum.splits)

lemma paystackWebhook_amount_throws:
  assumes "authentic env req" "charge_success req"
    and "event_email req = Inr email" "event_amount req = Inl err"
  shows "paystackWebhook env req = Respond (500, Send ''Server error'')"
  using assms
  unfolding paystackWebhook_def authentic_def charge_success_def event_email_def
    event_amount_def event_reference_def event_data_def
  by (auto simp: Let_def split: option.splits)

lemma run_paystackWebhook_plan_throws:
  assumes "authentic env req" "charge_success req"
    and "event_email req = Inr email" "email \<noteq> []" "event_amount req = Inr amount"
    and "event_metaPlan req = Inl err"
  shows "run (paystackWebhook env req) d =
     (if truthy (event_reference req) then
        (case doc_id (event_reference req) of
           None \<Rightarrow> ((500, Send ''Server error''), d, [])
         | Some ref \<Rightarrow>
             (if map_of (paystack_events d) ref \<noteq> None then ((200, Send ''Duplicate''), d, [])
              else
                ((500, Send ''Server error''),
                 d\<lparr>paystack_events :=
                     put ref (ledger_entry env email amount) (paystack_events d)\<rparr>,
                 [W_ledger ref (ledger_entry env email amount)])))
      else ((500, Send ''Server error''), d, []))"
  by (simp add: paystackWebhook_gated [OF assms(1-5)] webhook_project_throws [OF assms(6)]
      split: option.splits)

lemma run_duplicate:
  assumes "authentic env req" "charge_success req"
    and "event_email req = Inr email" "email \<noteq> []" "event_amount req = Inr amount"
    and "doc_id (event_reference req) = Some ref" "map_of (paystack_events d) ref \<noteq> None"
  shows "run (paystackWebhook env req) d = ((200, Send ''Duplicate''), d, [])"
  using assms(6,7) doc_id_Some [OF assms(6)]
  by (simp add: paystackWebhook_gated [OF assms(1-5)])

lemma updates_keys:
  "map fst (updates env plan days reference) =
     [''plan'', ''status'', ''lastPaymentRef'', ''updatedAt'', ''trialEndsAt'', ''subscriptionEndsAt'']"
  by (simp add: updates_def)

lemma updates_plain: "list_all (\<lambda>kv. plain (snd kv)) (updates env plan days reference)"
  by (simp add: updates_def split: option.splits)

lemma user_field_user_set_merge:
  assumes "distinct (map fst upd)" "list_all (\<lambda>kv. plain (snd kv)) upd"
  shows "user_field (user_set_merge uid upd d) uid' k =
     (if uid' = uid then (case map_of upd k of Some v \<Rightarrow> Some v | None \<Rightarrow> user_field d uid k)
      else user_field d uid' k)"
  using assms
  by (auto simp: user_field_def user_set_merge_def map_of_put map_of_merge_fields_plain
      split: option.splits)

lemma user_field_updates:
  "user_field (user_set_merge uid (updates env plan days reference) d) uid k =
     (case map_of (updates env plan days reference) k of
        Some v \<Rightarrow> Some v
      | None \<Rightarrow> user_field d uid k)"
  by (simp add: user_field_user_set_merge updates_keys updates_plain)

lemma updates_status_plan:
  "map_of (updates env plan days reference) ''plan'' = Some (FVal (JStr plan))"
  "map_of (updates env plan days reference) ''status'' =
     Some (FVal (JStr (if plan = ''pending'' then ''inactive'' else ''active'')))"
  by (simp_all add: updates_def)

lemma users_user_set_merge_other:
  "uid' \<noteq> uid \<Longrightarrow> map_of (users (user_set_merge uid upd d)) uid' = map_of (users d) uid'"
  by (simp add: user_set_merge_def map_of_put)

lemma run_webhook_project_shape:
  assumes "run (webhook_project env data reference email amount) d = (r, d', ws)"
  shows "(ws = [] \<and> d' = d) \<or>
     (\<exists>uid metaPlan.
        ws = [W_user uid (updates env (fst (classify metaPlan amount))
                            (snd (classify metaPlan amount)) reference)] \<and>
        d' = user_set_merge uid (updates env (fst (classify metaPlan amount))
                            (snd (classify metaPlan amount)) reference) d)"
  using assms
  unfolding webhook_project_def
  by (auto simp: Let_def split: sum.splits option.splits)

lemma run_paystackWebhook_shape:
  assumes "run (paystackWebhook env req) d = (r, d', ws)"
  shows "user_writes ws = [] \<or>
     (\<exists>uid metaPlan amount reference d1.
        user_writes ws = [W_user uid (updates env (fst (classify metaPlan amount))
                            (snd (classify metaPlan amount)) reference)] \<and>
        d' = user_set_merge uid (updates env (fst (classify metaPlan amount))
                            (snd (classify metaPlan amount)) reference) d1)"
proof -
  define shape where "shape us db' \<longleftrightarrow>
     us = [] \<or>
     (\<exists>uid metaPlan amount reference d1.
        us = [W_user uid (updates env (fst (classify metaPlan amount))
                            (snd (classify metaPlan amount)) reference)] \<and>
        db' = user_set_merge uid (updates env (fst (classify metaPlan amount))
                            (snd (classify metaPlan amount)) reference) d1)"
    for us :: "store_write list" and db' :: db
  have proj: "shape (filter is_user_write ws0) d''"
    if "run (webhook_project env data reference email amount) d0 = (r', d'', ws0)"
    for data reference email amount d0 r' d'' ws0
    using run_webhook_project_shape [OF that] unfolding shape_def
    by (elim disjE exE conjE) (simp, simp, blast)
  have none: "shape [] db'" for db'
    by (simp add: shape_def)
  have "shape (user_writes ws) d'"
    using assms
    unfolding paystackWebhook_def
    by (auto simp: Let_def user_writes_def none
        split: if_splits option.splits sum.splits prod.splits dest: proj)
  then show ?thesis
    unfolding shape_def .
qed

lemma ledger_writes_simps [simp]:
  "ledger_writes [] = []"
  "ledger_writes (W_ledger ref entry # ws) = W_ledger ref entry # ledger_writes ws"
  "ledger_writes (W_user uid upd # ws) = ledger_writes ws"
  "ledger_writes (ws @ ws') = ledger_writes ws @ ledger_writes ws'"
  by (simp_all add: ledger_writes_def)

lemma user_writes_simps [simp]:
  "user_writes [] = []"
  "user_writes (W_ledger ref entry # ws) = user_writes ws"
  "user_writes (W_user uid upd # ws) = W_user uid upd # user_writes ws"
  "user_writes (ws @ ws') = user_writes ws @ user_writes ws'"
  by (simp_all add: user_writes_def)

lemma no_price_matches:
  assumes "\<not> num_eq amount (Fin 10000 0)" "\<not> num_eq amount (Fin 90000 0)"
    "\<not> num_eq amount (Fin 500000 0)" "\<not> num_eq amount (Fin 500 0)"
  shows "classify [] amount = (''pending'', None)"
  using assms
  by (simp add: classify_def AMT_MONTHLY_def AMT_YEARLY_def AMT_LIFETIME_def AMT_COMMUNITY_def)

section \<open>Classification\<close>

text \<open>
  C3 (as the code has it).  A metadata plan that is one of the four tags is used,
  with 30 days for monthly, 365 days for yearly and no duration for lifetime and
  community; with no metadata plan the amount decides by the price table 10000,
  90000, 500000, 500, and any other amount gives pending.  In these cases the
  handler's classification is the specified one.  A metadata plan that is declared
  but not recognised gives pending whatever the amount: the amount is not consulted.
\<close>

theorem classify_by_metadata_else_amount:
  "classify metaPlan amount =
     (if metaPlan \<noteq> [] \<and> metaPlan \<notin> set [''monthly'', ''yearly'', ''lifetime'', ''community'']
      then (''pending'', None)
      else spec_classify metaPlan amount)"
  by (simp add: classify_def spec_classify_def AMT_MONTHLY_def AMT_YEARLY_def
      AMT_LIFETIME_def AMT_COMMUNITY_def)

text \<open>Metadata wins: plan yearly with the monthly price is yearly, for 365 days.\<close>

theorem classify_by_metadata_else_amount_witness:
  "classify ''yearly'' (Fin 10000 0) = (''yearly'', Some 365)"
  using classify_by_metadata_else_amount [of "''yearly''" "Fin 10000 0"]
  by (simp add: spec_classify_def)

text \<open>
  C3 as stated fails: for the plan name gold and the monthly price, the specified
  classifier answers monthly, the handler pending, which is what reaches the user
  document.
\<close>

theorem unrecognised_plan_counterexample:
  "event_metaPlan ex_gold = Inr ''gold'' \<and>
   event_amount ex_gold = Inr (Fin 10000 0) \<and>
   spec_classify ''gold'' (Fin 10000 0) = (''monthly'', Some 30) \<and>
   classify ''gold'' (Fin 10000 0) = (''pending'', None) \<and>
   fst (run (paystackWebhook ex_env ex_gold) ex_db) = (200, Send ''OK'') \<and>
   user_field (fst (snd (run (paystackWebhook ex_env ex_gold) ex_db))) ''u1'' ''plan''
     = Some (FVal (JStr ''pending''))"
  by code_simp

section \<open>The state projector\<close>

text \<open>
  C7.  Whatever the request, every write of the webhook to a user document carries a
  status that is active exactly when its plan is not pending (and is active or
  inactive), and so does the user document once the write is merged.
\<close>

theorem status_active_iff_plan_not_pending:
  assumes "run (paystackWebhook env req) d = (r, d', ws)" and "W_user uid upd \<in> set ws"
  shows "(map_of upd ''status'' = Some (FVal (JStr ''active''))) =
           (map_of upd ''plan'' \<noteq> Some (FVal (JStr ''pending''))) \<and>
         (map_of upd ''status'' = Some (FVal (JStr ''active'')) \<or>
          map_of upd ''status'' = Some (FVal (JStr ''inactive''))) \<and>
         (user_field d' uid ''status'' = Some (FVal (JStr ''active''))) =
           (user_field d' uid ''plan'' \<noteq> Some (FVal (JStr ''pending'')))"
proof -
  from assms(2) have "W_user uid upd \<in> set (user_writes ws)"
    by (simp add: user_writes_def)
  with run_paystackWebhook_shape [OF assms(1)]
  obtain metaPlan amount reference d1 where
    upd: "upd = updates env (fst (classify metaPlan amount)) (snd (classify metaPlan amount)) reference"
    and d': "d' = user_set_merge uid upd d1"
    by auto
  show ?thesis
    unfolding d' unfolding upd
    by (simp add: user_field_updates updates_status_plan)
qed

text \<open>The monthly payment of the end-to-end example leaves the user active on a plan.\<close>

theorem status_active_iff_plan_not_pending_witness:
  "map_of (updates ex_env ''monthly'' (Some 30) (JStr ''R1'')) ''status'' = Some (FVal (JStr ''active'')) \<and>
   map_of (updates ex_env ''monthly'' (Some 30) (JStr ''R1'')) ''plan'' \<noteq> Some (FVal (JStr ''pending'')) \<and>
   user_field (fst (snd (run (paystackWebhook ex_env ex_monthly) ex_db))) ''u1'' ''status''
     = Some (FVal (JStr ''active'')) \<and>
   user_field (fst (snd (run (paystackWebhook ex_env ex_monthly) ex_db))) ''u1'' ''plan''
     \<noteq> Some (FVal (JStr ''pending''))"
proof -
  have r: "run (paystackWebhook ex_env ex_monthly) ex_db =
      (fst (run (paystackWebhook ex_env ex_monthly) ex_db),
       fst (snd (run (paystackWebhook ex_env ex_monthly) ex_db)),
       snd (snd (run (paystackWebhook ex_env ex_monthly) ex_db)))"
    by simp
  have w: "W_user ''u1'' (updates ex_env ''monthly'' (Some 30) (JStr ''R1''))
      \<in> set (snd (snd (run (paystackWebhook ex_env ex_monthly) ex_db)))"
    by code_simp
  have a: "map_of (updates ex_env ''monthly'' (Some 30) (JStr ''R1'')) ''status''
      = Some (FVal (JStr ''active''))"
    by code_simp
  have b: "user_field (fst (snd (run (paystackWebhook ex_env ex_monthly) ex_db))) ''u1'' ''status''
     = Some (FVal (JStr ''active''))"
    by code_simp
  from status_active_iff_plan_not_pending [OF r w] a b show ?thesis
    by simp
qed

section \<open>Accepted payment events\<close>

text \<open>
  C8 (as the code has it).  Let a payment event have passed the gates: an authentic
  POST, event type charge.success, an email, and a reference that is absent or, when
  it is a string, has no slash and is not yet in the ledger.  Then at most one ledger
  record and at most one user document are written, and the outcome is one of these.
  When \<^verbatim>\<open>Number\<close> throws on the amount, or the reference is truthy but not a
  string, the answer is 500 and nothing is written.  When \<^verbatim>\<open>String\<close> throws on
  the metadata plan, the answer is 500 and no user document is written, but the
  ledger record of a reference is already written.  Otherwise, when the email matches
  a stored user, the answer is OK and exactly one user document, that of the first
  match, is written, with the update built from the classification, and no other
  user changes; and when no user matches, the answer is the success-shaped
  \<^verbatim>\<open>No matching user\<close> and no user document is written.
\<close>

theorem accepted_event_effects:
  assumes "authentic env req" "charge_success req"
    and "event_email req = Inr email" "email \<noteq> []"
    and "case event_reference req of
           JStr s \<Rightarrow> CHR ''/'' \<notin> set s \<and> map_of (paystack_events d) s = None
         | _ \<Rightarrow> True"
    and "run (paystackWebhook env req) d = (r, d', ws)"
  shows "length (ledger_writes ws) \<le> 1 \<and> length (user_writes ws) \<le> 1 \<and>
     (case event_amount req of
        Inl err \<Rightarrow> r = (500, Send ''Server error'') \<and> ws = [] \<and> d' = d
      | Inr amount \<Rightarrow>
          (if truthy (event_reference req) \<and> doc_id (event_reference req) = None then
             r = (500, Send ''Server error'') \<and> ws = [] \<and> d' = d
           else
             (case event_metaPlan req of
                Inl err \<Rightarrow>
                  r = (500, Send ''Server error'') \<and> user_writes ws = [] \<and>
                  users d' = users d \<and>
                  ledger_writes ws =
                    (case doc_id (event_reference req) of
                       Some ref \<Rightarrow> [W_ledger ref (ledger_entry env email amount)]
                     | None \<Rightarrow> [])
              | Inr metaPlan \<Rightarrow>
                  (case users_where_email d email of
                     Some uid \<Rightarrow>
                       r = (200, Send ''OK'') \<and>
                       user_writes ws =
                         [W_user uid (updates env (fst (classify metaPlan amount))
                                        (snd (classify metaPlan amount))
                                        (event_reference req))] \<and>
                       (\<forall>uid'. uid' \<noteq> uid \<longrightarrow>
                          map_of (users d') uid' = map_of (users d) uid')
                   | None \<Rightarrow>
                       r = (200, Send ''No matching user'') \<and> user_writes ws = [] \<and>
                       users d' = users d))))"
proof (cases "event_amount req")
  case (Inl err)
  with assms(6) show ?thesis
    by (auto simp: paystackWebhook_amount_throws [OF assms(1-3) Inl])
next
  case amount: (Inr amount)
  have fresh: "map_of (paystack_events d) ref = None"
    if "doc_id (event_reference req) = Some ref" for ref
    using doc_id_Some [OF that] assms(5) by simp
  show ?thesis
  proof (cases "event_metaPlan req")
    case (Inl err)
    show ?thesis
    proof (cases "doc_id (event_reference req)")
      case None
      with assms(6) amount Inl show ?thesis
        by (auto simp: run_paystackWebhook_plan_throws [OF assms(1-4) amount Inl])
    next
      case (Some ref)
      with assms(6) amount Inl fresh [OF Some] doc_id_Some [OF Some] show ?thesis
        by (auto simp: run_paystackWebhook_plan_throws [OF assms(1-4) amount Inl])
    qed
  next
    case plan: (Inr metaPlan)
    show ?thesis
    proof (cases "doc_id (event_reference req)")
      case None
      with assms(6) amount plan show ?thesis
        by (auto simp: run_paystackWebhook_accepted [OF assms(1-4) amount plan refl refl]
            users_user_set_merge_other split: option.splits)
    next
      case (Some ref)
      with assms(6) amount plan fresh [OF Some] doc_id_Some [OF Some] show ?thesis
        by (auto simp: run_paystackWebhook_accepted [OF assms(1-4) amount plan refl refl]
            user_set_merge_def map_of_put split: option.splits)
    qed
  qed
qed

text \<open>
  The monthly payment of a known user, the same payment of an unknown one, and a
  payment whose metadata plan cannot be converted to a string.
\<close>

theorem accepted_event_effects_witness:
  "length (ledger_writes (snd (snd (run (paystackWebhook ex_env ex_monthly) ex_db)))) \<le> 1 \<and>
   fst (run (paystackWebhook ex_env ex_monthly) ex_db) = (200, Send ''OK'') \<and>
   user_writes (snd (snd (run (paystackWebhook ex_env ex_monthly) ex_db))) =
     [W_user ''u1'' (updates ex_env ''monthly'' (Some 30) (JStr ''R1''))] \<and>
   fst (run (paystackWebhook ex_env ex_stranger) ex_db) = (200, Send ''No matching user'') \<and>
   user_writes (snd (snd (run (paystackWebhook ex_env ex_stranger) ex_db))) = [] \<and>
   fst (run (paystackWebhook ex_env ex_unprintable_plan) ex_db) = (500, Send ''Server error'') \<and>
   user_writes (snd (snd (run (paystackWebhook ex_env ex_unprintable_plan) ex_db))) = []"
proof -
  have a: "authentic ex_env ex_monthly" "charge_success ex_monthly"
    "event_email ex_monthly = Inr ''a@x.com''" "''a@x.com'' \<noteq> []"
    "case event_reference ex_monthly of
       JStr s \<Rightarrow> CHR ''/'' \<notin> set s \<and> map_of (paystack_events ex_db) s = None
     | _ \<Rightarrow> True"
    by code_simp+
  have b: "authentic ex_env ex_stranger" "charge_success ex_stranger"
    "event_email ex_stranger = Inr ''nobody@x.com''" "''nobody@x.com'' \<noteq> []"
    "case event_reference ex_stranger of
       JStr s \<Rightarrow> CHR ''/'' \<notin> set s \<and> map_of (paystack_events ex_db) s = None
     | _ \<Rightarrow> True"
    by code_simp+
  have c: "authentic ex_env ex_unprintable_plan" "charge_success ex_unprintable_plan"
    "event_email ex_unprintable_plan = Inr ''a@x.com''" "''a@x.com'' \<noteq> []"
    "case event_reference ex_unprintable_plan of
       JStr s \<Rightarrow> CHR ''/'' \<notin> set s \<and> map_of (paystack_events ex_db) s = None
     | _ \<Rightarrow> True"
    by code_simp+
  have u: "users_where_email ex_db ''a@x.com'' = Some ''u1''"
    "users_where_email ex_db ''nobody@x.com'' = None"
    "classify [] (Fin 10000 0) = (''monthly'', Some 30)"
    "event_reference ex_monthly = JStr ''R1''"
    "event_reference ex_stranger = JStr ''R4''"
    "event_reference ex_unprintable_plan = JStr ''R7''"
    "event_amount ex_monthly = Inr (Fin 10000 0)" "event_metaPlan ex_monthly = Inr []"
    "event_amount ex_stranger = Inr (Fin 10000 0)" "event_metaPlan ex_stranger = Inr []"
    "event_amount ex_unprintable_plan = Inr (Fin 10000 0)"
    "event_metaPlan ex_unprintable_plan = Inl TypeError"
    by code_simp+
  have r: "run p d = (fst (run p d), fst (snd (run p d)), snd (snd (run p d)))" for p d
    by simp
  from accepted_event_effects [OF a r] accepted_event_effects [OF b r]
    accepted_event_effects [OF c r]
  show ?thesis
    by (simp add: u)
qed

text \<open>
  C8 as stated fails: an event that has passed the four gates, from a known payer,
  whose metadata plan is an object with a member \<^verbatim>\<open>toString\<close> is answered 500
  after its reference is recorded, and no subscription state is written.
\<close>

theorem unprintable_plan_counterexample:
  "authentic ex_env ex_unprintable_plan \<and> charge_success ex_unprintable_plan \<and>
   event_email ex_unprintable_plan = Inr ''a@x.com'' \<and>
   event_reference ex_unprintable_plan = JStr ''R7'' \<and>
   map_of (paystack_events ex_db) ''R7'' = None \<and>
   users_where_email ex_db ''a@x.com'' = Some ''u1'' \<and>
   fst (run (paystackWebhook ex_env ex_unprintable_plan) ex_db) = (500, Send ''Server error'') \<and>
   length (user_writes (snd (snd (run (paystackWebhook ex_env ex_unprintable_plan) ex_db)))) \<noteq> 1 \<and>
   length (ledger_writes (snd (snd (run (paystackWebhook ex_env ex_unprintable_plan) ex_db)))) = 1 \<and>
   users (fst (snd (run (paystackWebhook ex_env ex_unprintable_plan) ex_db))) = users ex_db"
  by code_simp

section \<open>Idempotency of sequential resubmission\<close>

text \<open>
  C1 (as the code has it).  Let an authentic charge.success event carry an email and a
  reference that is a document id not yet in the ledger, and let it be delivered
  twice, one after the other.  When \<^verbatim>\<open>Number\<close> throws on its amount, both
  deliveries are answered 500 and nothing is written.  Otherwise exactly one ledger
  record for the reference results, written by the first delivery; the second
  delivery is answered \<^verbatim>\<open>200 Duplicate\<close>, writes nothing and leaves the store as
  the first left it.  The two deliveries together write one user document when
  \<^verbatim>\<open>String\<close> does not throw on the metadata plan and the email matches a stored
  user, the first answer being OK; they write none when that conversion throws (first
  answer 500) and none when no user matches (first answer \<^verbatim>\<open>No matching user\<close>).
\<close>

theorem resubmission_is_duplicate:
  assumes "authentic env1 req" "authentic env2 req" "charge_success req"
    and "event_email req = Inr email" "email \<noteq> []"
    and "doc_id (event_reference req) = Some ref" "map_of (paystack_events d) ref = None"
    and "submit_twice env1 env2 req d = ((r1, d1, w1), (r2, d2, w2))"
  shows "case event_amount req of
       Inl err \<Rightarrow>
         r1 = (500, Send ''Server error'') \<and> r2 = (500, Send ''Server error'') \<and>
         w1 = [] \<and> w2 = [] \<and> d2 = d
     | Inr amount \<Rightarrow>
         ledger_writes (w1 @ w2) = [W_ledger ref (ledger_entry env1 email amount)] \<and>
         length (filter (\<lambda>kv. fst kv = ref) (paystack_events d2)) = 1 \<and>
         r2 = (200, Send ''Duplicate'') \<and> w2 = [] \<and> d2 = d1 \<and>
         (case event_metaPlan req of
            Inl err \<Rightarrow> r1 = (500, Send ''Server error'') \<and> user_writes (w1 @ w2) = []
          | Inr metaPlan \<Rightarrow>
              (case users_where_email d email of
                 Some uid \<Rightarrow>
                   r1 = (200, Send ''OK'') \<and>
                   user_writes (w1 @ w2) =
                     [W_user uid (updates env1 (fst (classify metaPlan amount))
                                    (snd (classify metaPlan amount)) (event_reference req))]
               | None \<Rightarrow>
                   r1 = (200, Send ''No matching user'') \<and> user_writes (w1 @ w2) = []))"
proof -
  from assms(8) have first: "run (paystackWebhook env1 req) d = (r1, d1, w1)"
    and second: "run (paystackWebhook env2 req) d1 = (r2, d2, w2)"
    by (auto simp: submit_twice_def Let_def)
  have truthy: "truthy (event_reference req)"
    using assms(6) by (simp add: doc_id_Some)
  show ?thesis
  proof (cases "event_amount req")
    case (Inl err)
    from first have "r1 = (500, Send ''Server error'')" "w1 = []" "d1 = d"
      by (simp_all add: paystackWebhook_amount_throws [OF assms(1,3,4) Inl])
    moreover from second have "r2 = (500, Send ''Server error'')" "w2 = []" "d2 = d1"
      by (simp_all add: paystackWebhook_amount_throws [OF assms(2,3,4) Inl])
    ultimately show ?thesis
      using Inl by simp
  next
    case amount: (Inr amount)
    have first_run: "paystack_events d1 =
          put ref (ledger_entry env1 email amount) (paystack_events d) \<and>
        ledger_writes w1 = [W_ledger ref (ledger_entry env1 email amount)] \<and>
        (case event_metaPlan req of
           Inl err \<Rightarrow> r1 = (500, Send ''Server error'') \<and> user_writes w1 = []
         | Inr metaPlan \<Rightarrow>
             (case users_where_email d email of
                Some uid \<Rightarrow>
                  r1 = (200, Send ''OK'') \<and>
                  user_writes w1 =
                    [W_user uid (updates env1 (fst (classify metaPlan amount))
                                   (snd (classify metaPlan amount)) (event_reference req))]
              | None \<Rightarrow> r1 = (200, Send ''No matching user'') \<and> user_writes w1 = []))"
    proof (cases "event_metaPlan req")
      case (Inl err)
      with first truthy assms(6,7) show ?thesis
        by (auto simp: run_paystackWebhook_plan_throws [OF assms(1,3,4,5) amount Inl])
    next
      case (Inr metaPlan)
      with first truthy assms(6,7) show ?thesis
        by (auto simp: run_paystackWebhook_accepted [OF assms(1,3,4,5) amount Inr refl refl]
            split: option.splits)
    qed
    then have ledger1: "paystack_events d1 =
        put ref (ledger_entry env1 email amount) (paystack_events d)"
      by simp
    have "map_of (paystack_events d1) ref \<noteq> None"
      by (simp add: ledger1 map_of_put)
    from run_duplicate [OF assms(2,3,4,5) amount assms(6) this] second
    have dup: "r2 = (200, Send ''Duplicate'')" "d2 = d1" "w2 = []"
      by simp_all
    have "length (filter (\<lambda>kv. fst kv = ref) (paystack_events d1)) = 1"
      unfolding ledger1 using assms(7) by (rule count_put_fresh)
    with dup first_run amount show ?thesis
      by (simp split: sum.splits option.splits)
  qed
qed

text \<open>The end-to-end example: reference R1 of a known user, delivered a minute apart.\<close>

theorem resubmission_is_duplicate_witness:
  "fst (snd (submit_twice ex_env ex_later ex_monthly ex_db)) = (200, Send ''Duplicate'') \<and>
   snd (snd (snd (submit_twice ex_env ex_later ex_monthly ex_db))) = [] \<and>
   ledger_writes (snd (snd (fst (submit_twice ex_env ex_later ex_monthly ex_db))) @
                  snd (snd (snd (submit_twice ex_env ex_later ex_monthly ex_db))))
     = [W_ledger ''R1'' (ledger_entry ex_env ''a@x.com'' (Fin 10000 0))] \<and>
   length (user_writes (snd (snd (fst (submit_twice ex_env ex_later ex_monthly ex_db))) @
                        snd (snd (snd (submit_twice ex_env ex_later ex_monthly ex_db))))) = 1 \<and>
   fst (fst (submit_twice ex_env ex_later ex_monthly ex_db)) = (200, Send ''OK'')"
proof -
  have a: "authentic ex_env ex_monthly" "authentic ex_later ex_monthly" "charge_success ex_monthly"
    "event_email ex_monthly = Inr ''a@x.com''" "''a@x.com'' \<noteq> []"
    "doc_id (event_reference ex_monthly) = Some ''R1''"
    "map_of (paystack_events ex_db) ''R1'' = None"
    by code_simp+
  have u: "users_where_email ex_db ''a@x.com'' = Some ''u1''"
    "event_amount ex_monthly = Inr (Fin 10000 0)" "event_metaPlan ex_monthly = Inr []"
    by code_simp+
  have t: "t = ((fst (fst t), fst (snd (fst t)), snd (snd (fst t))),
                (fst (snd t), fst (snd (snd t)), snd (snd (snd t))))"
    for t :: "(response \<times> db \<times> store_write list) \<times> (response \<times> db \<times> store_write list)"
    by simp
  from resubmission_is_duplicate [OF a t] show ?thesis
    by (simp add: u) (elim conjE, simp)
qed

text \<open>
  C1 as stated fails for a payer without an account: the reference is recorded once
  and the resubmission is a duplicate, but no subscription state is ever written.
\<close>

theorem resubmission_without_user_counterexample:
  "authentic ex_env ex_stranger \<and> authentic ex_later ex_stranger \<and>
   charge_success ex_stranger \<and>
   event_reference ex_stranger = JStr ''R4'' \<and>
   event_email ex_stranger = Inr ''nobody@x.com'' \<and>
   fst (fst (submit_twice ex_env ex_later ex_stranger ex_db)) = (200, Send ''No matching user'') \<and>
   fst (snd (submit_twice ex_env ex_later ex_stranger ex_db)) = (200, Send ''Duplicate'') \<and>
   length (ledger_writes (snd (snd (fst (submit_twice ex_env ex_later ex_stranger ex_db))) @
                  snd (snd (snd (submit_twice ex_env ex_later ex_stranger ex_db))))) = 1 \<and>
   length (user_writes (snd (snd (fst (submit_twice ex_env ex_later ex_stranger ex_db))) @
                  snd (snd (snd (submit_twice ex_env ex_later ex_stranger ex_db))))) \<noteq> 1 \<and>
   users (fst (snd (snd (submit_twice ex_env ex_later ex_stranger ex_db)))) = users ex_db"
  by code_simp

section \<open>An amount outside the price table\<close>

text \<open>
  C4 (as the code has it).  For an accepted payment event with no metadata plan, an
  amount that equals none of the four prices and an email that matches a stored
  user, the user's plan becomes pending, the status inactive, and the expiry field
  \<^verbatim>\<open>subscriptionEndsAt\<close> is set to null, overwriting what was stored; the fields
  that \<^verbatim>\<open>updates\<close> does not name keep their values.
\<close>

theorem unrecognised_amount_projection:
  assumes "authentic env req" "charge_success req"
    and "event_email req = Inr email" "email \<noteq> []"
    and "event_amount req = Inr amount" "event_metaPlan req = Inr []"
    and "\<not> num_eq amount (Fin 10000 0)" "\<not> num_eq amount (Fin 90000 0)"
      "\<not> num_eq amount (Fin 500000 0)" "\<not> num_eq amount (Fin 500 0)"
    and "case doc_id (event_reference req) of
           Some ref \<Rightarrow> map_of (paystack_events d) ref = None
         | None \<Rightarrow> \<not> truthy (event_reference req)"
    and "users_where_email d email = Some uid"
    and "run (paystackWebhook env req) d = (r, d', ws)"
  shows "r = (200, Send ''OK'') \<and>
     user_field d' uid ''plan'' = Some (FVal (JStr ''pending'')) \<and>
     user_field d' uid ''status'' = Some (FVal (JStr ''inactive'')) \<and>
     user_field d' uid ''subscriptionEndsAt'' = Some (FVal JNull) \<and>
     (k \<notin> set [''plan'', ''status'', ''lastPaymentRef'', ''updatedAt'', ''trialEndsAt'',
                ''subscriptionEndsAt''] \<longrightarrow>
        user_field d' uid k = user_field d uid k)"
proof -
  define upd where "upd = updates env ''pending'' None (event_reference req)"
  have cl: "classify [] amount = (''pending'', None)"
    using assms(7-10) by (rule no_price_matches)
  have field: "user_field (d0\<lparr>paystack_events := x\<rparr>) u f = user_field d0 u f" for d0 x u f
    by (simp add: user_field_def)
  have res: "r = (200, Send ''OK'') \<and>
      (d' = user_set_merge uid upd d \<or>
       (\<exists>x. d' = user_set_merge uid upd (d\<lparr>paystack_events := x\<rparr>)))"
  proof (cases "doc_id (event_reference req)")
    case None
    with assms(11) have "\<not> truthy (event_reference req)" by simp
    with assms(12,13) show ?thesis
      by (simp add: run_paystackWebhook_accepted [OF assms(1-6) refl refl] cl upd_def)
  next
    case (Some ref)
    with assms(11) have "map_of (paystack_events d) ref = None" by simp
    moreover from Some have "truthy (event_reference req)" by (simp add: doc_id_Some)
    ultimately show ?thesis
      using assms(12,13) Some
      by (auto simp: run_paystackWebhook_accepted [OF assms(1-6) refl refl] cl upd_def)
  qed
  have m: "map_of upd ''plan'' = Some (FVal (JStr ''pending''))"
    "map_of upd ''status'' = Some (FVal (JStr ''inactive''))"
    "map_of upd ''subscriptionEndsAt'' = Some (FVal JNull)"
    "k \<notin> set [''plan'', ''status'', ''lastPaymentRef'', ''updatedAt'', ''trialEndsAt'',
                ''subscriptionEndsAt''] \<Longrightarrow> map_of upd k = None"
    by (simp_all add: upd_def updates_def)
  from res show ?thesis
    by (auto simp: upd_def [symmetric] user_field_updates [of uid env "''pending''" None "event_reference req", folded upd_def] m field)
qed

text \<open>An amount of 12345 from an active monthly user.\<close>

theorem unrecognised_amount_projection_witness:
  "fst (run (paystackWebhook ex_env ex_odd_amount) ex_db) = (200, Send ''OK'') \<and>
   user_field (fst (snd (run (paystackWebhook ex_env ex_odd_amount) ex_db))) ''u1'' ''plan''
     = Some (FVal (JStr ''pending'')) \<and>
   user_field (fst (snd (run (paystackWebhook ex_env ex_odd_amount) ex_db))) ''u1'' ''status''
     = Some (FVal (JStr ''inactive'')) \<and>
   user_field (fst (snd (run (paystackWebhook ex_env ex_odd_amount) ex_db))) ''u1''
     ''subscriptionEndsAt'' = Some (FVal JNull) \<and>
   user_field (fst (snd (run (paystackWebhook ex_env ex_odd_amount) ex_db))) ''u1'' ''name''
     = Some (FVal (JStr ''Amina''))"
proof -
  have a: "authentic ex_env ex_odd_amount" "charge_success ex_odd_amount"
    "event_email ex_odd_amount = Inr ''a@x.com''" "''a@x.com'' \<noteq> []"
    "event_amount ex_odd_amount = Inr (Fin 12345 0)" "event_metaPlan ex_odd_amount = Inr []"
    "\<not> num_eq (Fin 12345 0) (Fin 10000 0)" "\<not> num_eq (Fin 12345 0) (Fin 90000 0)"
    "\<not> num_eq (Fin 12345 0) (Fin 500000 0)" "\<not> num_eq (Fin 12345 0) (Fin 500 0)"
    "case doc_id (event_reference ex_odd_amount) of
       Some ref \<Rightarrow> map_of (paystack_events ex_db) ref = None
     | None \<Rightarrow> \<not> truthy (event_reference ex_odd_amount)"
    "users_where_email ex_db ''a@x.com'' = Some ''u1''"
    by code_simp+
  have r: "run p d = (fst (run p d), fst (snd (run p d)), snd (snd (run p d)))" for p d
    by simp
  have n: "user_field ex_db ''u1'' ''name'' = Some (FVal (JStr ''Amina''))"
    by code_simp
  from unrecognised_amount_projection [OF a r, of "''name''"] show ?thesis
    by (simp add: n)
qed

text \<open>
  C4 as stated fails: the user's expiry instant does not survive the projection of
  an unrecognised amount.
\<close>

theorem expiry_overwritten_counterexample:
  "event_metaPlan ex_odd_amount = Inr [] \<and>
   event_amount ex_odd_amount = Inr (Fin 12345 0) \<and>
   fst (run (paystackWebhook ex_env ex_odd_amount) ex_db) = (200, Send ''OK'') \<and>
   user_field ex_db ''u1'' ''subscriptionEndsAt'' = Some (FTimestamp 1702000000000) \<and>
   user_field (fst (snd (run (paystackWebhook ex_env ex_odd_amount) ex_db))) ''u1''
     ''subscriptionEndsAt'' \<noteq> user_field ex_db ''u1'' ''subscriptionEndsAt'' \<and>
   user_field (fst (snd (run (paystackWebhook ex_env ex_odd_amount) ex_db))) ''u1''
     ''subscriptionEndsAt'' = Some (FVal JNull)"
  by code_simp

section \<open>Concurrent deliveries\<close>

text \<open>
  Whenever an accepted event with a fresh reference and a known payer is delivered
  twice and the two handlers alternate, both deliveries are answered OK, after two
  ledger writes and two user writes.
\<close>

lemma concurrent_race:
  assumes "authentic env1 req" "authentic env2 req" "charge_success req"
    and "event_email req = Inr email" "email \<noteq> []"
    and "event_amount req = Inr amount" "event_metaPlan req = Inr metaPlan"
    and "doc_id (event_reference req) = Some ref" "map_of (paystack_events d) ref = None"
    and "users_where_email d email = Some uid"
  shows "map response_of
       (fst (sched [0, 1, 0, 1, 0, 1, 0, 1] [paystackWebhook env1 req, paystackWebhook env2 req] d))
       = [Some (200, Send ''OK''), Some (200, Send ''OK'')] \<and>
     map is_user_write
       (snd (snd (sched [0, 1, 0, 1, 0, 1, 0, 1]
                    [paystackWebhook env1 req, paystackWebhook env2 req] d)))
       = [False, False, True, True]"
proof -
  have t: "truthy (event_reference req)"
    using assms(8) by (simp add: doc_id_Some)
  show ?thesis
    using assms(8-10) t
    by (simp add: paystackWebhook_gated [OF assms(1,3-6)] paystackWebhook_gated [OF assms(2,3-6)]
        webhook_project_io [OF assms(7)])
qed

text \<open>
  C2.  The duplicate check is two store calls, \<^verbatim>\<open>refDoc.get()\<close> and then
  \<^verbatim>\<open>refDoc.set(...)\<close>.  When two deliveries of the same event alternate store
  call by store call, both read the ledger before either writes it: both are
  answered OK, the ledger record is written twice and the user document twice.
  Handled one after the other, the second delivery is a duplicate.
\<close>

theorem concurrent_duplicates_both_accepted:
  "map response_of
     (fst (sched [0, 1, 0, 1, 0, 1, 0, 1]
            [paystackWebhook ex_env ex_monthly, paystackWebhook ex_later ex_monthly] ex_db))
     = [Some (200, Send ''OK''), Some (200, Send ''OK'')] \<and>
   length (ledger_writes (snd (snd (sched [0, 1, 0, 1, 0, 1, 0, 1]
            [paystackWebhook ex_env ex_monthly, paystackWebhook ex_later ex_monthly] ex_db)))) = 2 \<and>
   length (user_writes (snd (snd (sched [0, 1, 0, 1, 0, 1, 0, 1]
            [paystackWebhook ex_env ex_monthly, paystackWebhook ex_later ex_monthly] ex_db)))) = 2 \<and>
   map response_of
     (fst (sched [0, 0, 0, 0, 1, 1, 1, 1]
            [paystackWebhook ex_env ex_monthly, paystackWebhook ex_later ex_monthly] ex_db))
     = [Some (200, Send ''OK''), Some (200, Send ''Duplicate'')]"
  by code_simp

section \<open>The ping, gate by gate\<close>

lemma trackPing_gated:
  assumes "http_method req = ''POST''"
    and "ping_sid req = Inr sid" "ping_tok req = Inr tok"
    and "ping_lat req = Inr lat" "ping_lng req = Inr lng" "ping_acc req = Inr acc"
  shows "trackPing env req =
     (if sid = [] \<or> tok = [] then Respond (400, Json_error ''sid and tok required'')
      else if lat = NaN \<or> lng = NaN then Respond (400, Json_error ''lat/lng invalid'')
      else Sessions_where_sessionId sid
             (\<lambda>q. case q of
                     None \<Rightarrow> Respond (404, Json_error ''session not found'')
                   | Some sess \<Rightarrow> ping_session env req sid tok lat lng acc sess))"
  using assms
  unfolding trackPing_def ping_sid_def ping_tok_def ping_lat_def ping_lng_def ping_acc_def
    ping_body_def
  by (auto simp: Let_def split: sum.splits)

lemma ping_session_cases:
  assumes "truthy (isActive sess)" "ToString (js_or (token sess) (JStr [])) = Inr tok"
  shows "ping_session env req sid tok lat lng acc sess =
     (if num_truthy (tsToMillis (expiresAt sess)) \<and>
         num_lt (tsToMillis (expiresAt sess)) (Fin (Date_now env) 0)
      then Respond (403, Json_error ''session expired'')
      else (case doc_id (orgId sess) of
              None \<Rightarrow> Respond (500, Json_thrown InvalidPath)
            | Some org \<Rightarrow>
                (case doc_id (studentId sess) of
                   None \<Rightarrow> Respond (500, Json_thrown InvalidPath)
                 | Some st \<Rightarrow>
                     Locations_add org st (loc env req sid lat lng acc sess)
                       (Student_set_merge org st (lastLocation env sid lat lng acc)
                          (Respond (200, Json_ok))))))"
  using assms
  unfolding ping_session_def
  by (simp add: Let_def)

lemma locations_student_set_merge [simp]:
  "locations (student_set_merge org st upd d) = locations d"
  by (simp add: student_set_merge_def)

lemma lastLocation_field_after_merge:
  "lastLocation_field (student_set_merge org st (lastLocation env sid lat lng acc) d) org st k =
     (case map_of [(''lat'', FVal (JNum lat)), (''lng'', FVal (JNum lng)),
                   (''acc'', FVal (JNum acc)), (''sid'', FVal (JStr sid)),
                   (''updatedAt'', FTimestamp (serverTimestamp env))] k of
        Some v \<Rightarrow> Some v
      | None \<Rightarrow> lastLocation_field d org st k)"
proof -
  let ?new = "[(''lat'', FVal (JNum lat)), (''lng'', FVal (JNum lng)),
               (''acc'', FVal (JNum acc)), (''sid'', FVal (JStr sid)),
               (''updatedAt'', FTimestamp (serverTimestamp env))]"
  have new: "distinct (map fst ?new)" "list_all (\<lambda>kv. plain (snd kv)) ?new"
    by simp_all
  have mv: "(case merge_val old (FMap ?new) of FMap m \<Rightarrow> map_of m k | _ \<Rightarrow> None) =
      (case map_of ?new k of
         Some v \<Rightarrow> Some v
       | None \<Rightarrow> (case old of Some (FMap m) \<Rightarrow> map_of m k | _ \<Rightarrow> None))" for old
  proof (cases old)
    case None
    then show ?thesis by (simp split: option.splits)
  next
    case (Some v)
    show ?thesis
    proof (cases v)
      case (FMap m)
      with Some show ?thesis
        using map_of_merge_fields_plain [OF new, of m k] by simp
    qed (simp_all add: Some split: option.splits)
  qed
  show ?thesis
    using mv [of "map_of (case map_of (students d) (org, st) of Some u \<Rightarrow> u | None \<Rightarrow> []) ''lastLocation''"]
    by (auto simp: lastLocation_field_def student_set_merge_def lastLocation_def map_of_put
        split: option.splits fsval.splits)
qed

section \<open>Session lifecycle\<close>

text \<open>
  C6.  Let a session be stored active, with the token of the ping, with owner ids
  that are document ids and with an expiry instant 24 hours after an issuance at or
  after the epoch, and let the ping be a POST whose session id and token are not
  empty and whose latitude and longitude are numbers.  At or before the expiry
  instant the ping is answered \<^verbatim>\<open>{ok: true}\<close>; it appends exactly one record to
  the location history of the student and then merges the snapshot into the student
  document, whose \<^verbatim>\<open>lastLocation\<close> then holds the coordinates, accuracy and
  session id of the ping, in this order: after the lookup and one write the store
  holds the new history record and the handler still has the snapshot to write.
  After the expiry
  instant the same ping is answered 403 \<^verbatim>\<open>session expired\<close>, and nothing is
  written: the store is unchanged.
\<close>

theorem ping_before_and_after_expiry:
  assumes "http_method req = ''POST''"
    and "ping_sid req = Inr sid" "sid \<noteq> []" "ping_tok req = Inr tok" "tok \<noteq> []"
    and "ping_lat req = Inr lat" "lat \<noteq> NaN" "ping_lng req = Inr lng" "lng \<noteq> NaN"
    and "ping_acc req = Inr acc"
    and "sessions_where_sessionId d sid = Some sess"
    and "truthy (isActive sess)" "token sess = JStr tok"
    and "doc_id (orgId sess) = Some org" "doc_id (studentId sess) = Some st"
    and "expiresAt sess = ExpTimestamp (issued + 24 * 60 * 60 * 1000)" "0 \<le> issued"
  shows "(Date_now env \<le> issued + 24 * 60 * 60 * 1000 \<longrightarrow>
       run (trackPing env req) d =
         ((200, Json_ok),
          student_set_merge org st (lastLocation env sid lat lng acc)
            (d\<lparr>locations := locations d @ [((org, st), loc env req sid lat lng acc sess)]\<rparr>),
          [W_location org st (loc env req sid lat lng acc sess),
           W_student org st (lastLocation env sid lat lng acc)]) \<and>
       locations (fst (snd (run (trackPing env req) d))) =
         locations d @ [((org, st), loc env req sid lat lng acc sess)] \<and>
       map (lastLocation_field (fst (snd (run (trackPing env req) d))) org st)
           [''lat'', ''lng'', ''acc'', ''sid'', ''updatedAt''] =
         [Some (FVal (JNum lat)), Some (FVal (JNum lng)), Some (FVal (JNum acc)),
          Some (FVal (JStr sid)), Some (FTimestamp (serverTimestamp env))] \<and>
       sched [0, 0] [trackPing env req] d =
         ([Student_set_merge org st (lastLocation env sid lat lng acc) (Respond (200, Json_ok))],
          d\<lparr>locations := locations d @ [((org, st), loc env req sid lat lng acc sess)]\<rparr>,
          [W_location org st (loc env req sid lat lng acc sess)])) \<and>
     (issued + 24 * 60 * 60 * 1000 < Date_now env' \<longrightarrow>
       run (trackPing env' req) d = ((403, Json_error ''session expired''), d, []))"
proof -
  have tok: "ToString (js_or (token sess) (JStr [])) = Inr tok"
    using assms(5,13) by (simp add: js_or_def)
  have gate: "trackPing e req =
      Sessions_where_sessionId sid
        (\<lambda>q. case q of
                None \<Rightarrow> Respond (404, Json_error ''session not found'')
              | Some sess \<Rightarrow> ping_session e req sid tok lat lng acc sess)" for e
    using assms(3,5,7,9) by (simp add: trackPing_gated [OF assms(1,2,4,6,8,10)])
  show ?thesis
    using assms(11,14-17)
    by (simp add: gate ping_session_cases [OF assms(12) tok] lastLocation_field_after_merge)
qed

text \<open>A session issued 10000 seconds before the first ping; the second comes a day later.\<close>

theorem ping_before_and_after_expiry_witness:
  "fst (run (trackPing ex_env ex_ping) ex_db) = (200, Json_ok) \<and>
   snd (snd (run (trackPing ex_env ex_ping) ex_db)) =
     [W_location ''org1'' ''st1''
        (loc ex_env ex_ping ''SID_lx1abc_K7QPM'' (Fin (- 12921) (- 4)) (Fin 368219 (- 4))
           (Fin 12 0) ex_session),
      W_student ''org1'' ''st1''
        (lastLocation ex_env ''SID_lx1abc_K7QPM'' (Fin (- 12921) (- 4)) (Fin 368219 (- 4))
           (Fin 12 0))] \<and>
   length (locations (fst (snd (run (trackPing ex_env ex_ping) ex_db)))) = 1 \<and>
   lastLocation_field (fst (snd (run (trackPing ex_env ex_ping) ex_db))) ''org1'' ''st1'' ''lat''
     = Some (FVal (JNum (Fin (- 12921) (- 4)))) \<and>
   run (trackPing ex_next_day ex_ping) ex_db = ((403, Json_error ''session expired''), ex_db, [])"
proof -
  have a: "http_method ex_ping = ''POST''"
    "ping_sid ex_ping = Inr ''SID_lx1abc_K7QPM''" "''SID_lx1abc_K7QPM'' \<noteq> []"
    "ping_tok ex_ping = Inr ex_token" "ex_token \<noteq> []"
    "ping_lat ex_ping = Inr (Fin (- 12921) (- 4))" "Fin (- 12921) (- 4) \<noteq> NaN"
    "ping_lng ex_ping = Inr (Fin 368219 (- 4))" "Fin 368219 (- 4) \<noteq> NaN"
    "ping_acc ex_ping = Inr (Fin 12 0)"
    "sessions_where_sessionId ex_db ''SID_lx1abc_K7QPM'' = Some ex_session"
    "truthy (isActive ex_session)" "token ex_session = JStr ex_token"
    "doc_id (orgId ex_session) = Some ''org1''" "doc_id (studentId ex_session) = Some ''st1''"
    "expiresAt ex_session = ExpTimestamp (1699990000000 + 24 * 60 * 60 * 1000)"
    "(0::int) \<le> 1699990000000"
    by code_simp+
  have t: "Date_now ex_env \<le> 1699990000000 + 24 * 60 * 60 * 1000"
    "1699990000000 + 24 * 60 * 60 * 1000 < Date_now ex_next_day"
    "locations ex_db = []"
    by code_simp+
  from ping_before_and_after_expiry [OF a, of ex_env ex_next_day] t show ?thesis
    by (simp add: lastLocation_field_after_merge)
qed

section \<open>Sessions without a usable expiry\<close>

text \<open>
  C10 (as the code has it).  For a ping that has reached the expiry check (a POST
  with session id, token and coordinates, for a stored session that is active and has
  this token), the answer is 403 \<^verbatim>\<open>session expired\<close> exactly when the value of
  \<^verbatim>\<open>tsToMillis(sess.expiresAt)\<close> is truthy, that is neither 0 nor NaN, and
  strictly less than the current time; a negative value is always in the past.  So a
  session whose expiry is absent or converts to 0 never gives this error, and with
  owner ids that are document ids its pings are accepted at any time.
\<close>

theorem expired_iff_nonzero_expiry_passed:
  assumes "http_method req = ''POST''"
    and "ping_sid req = Inr sid" "sid \<noteq> []" "ping_tok req = Inr tok" "tok \<noteq> []"
    and "ping_lat req = Inr lat" "lat \<noteq> NaN" "ping_lng req = Inr lng" "lng \<noteq> NaN"
    and "ping_acc req = Inr acc"
    and "sessions_where_sessionId d sid = Some sess"
    and "truthy (isActive sess)" "ToString (js_or (token sess) (JStr [])) = Inr tok"
  shows "((fst (run (trackPing env req) d) = (403, Json_error ''session expired'')) =
          (num_truthy (tsToMillis (expiresAt sess)) \<and>
           num_lt (tsToMillis (expiresAt sess)) (Fin (Date_now env) 0))) \<and>
     (\<not> num_truthy (tsToMillis (expiresAt sess)) \<longrightarrow>
        doc_id (orgId sess) = Some org \<longrightarrow> doc_id (studentId sess) = Some st \<longrightarrow>
        fst (run (trackPing env req) d) = (200, Json_ok))"
proof -
  have gate: "trackPing env req =
      Sessions_where_sessionId sid
        (\<lambda>q. case q of
                None \<Rightarrow> Respond (404, Json_error ''session not found'')
              | Some sess \<Rightarrow> ping_session env req sid tok lat lng acc sess)"
    using assms(3,5,7,9) by (simp add: trackPing_gated [OF assms(1,2,4,6,8,10)])
  show ?thesis
    using assms(11)
    by (auto simp: gate ping_session_cases [OF assms(12,13)] split: option.splits)
qed

text \<open>A session without \<^verbatim>\<open>expiresAt\<close> still accepts the ping a day after its issue.\<close>

theorem expired_iff_nonzero_expiry_passed_witness:
  "tsToMillis (ExpValue JUndefined) = Fin 0 0 \<and>
   fst (run (trackPing ex_next_day ex_ping) ex_db_no_expiry) = (200, Json_ok) \<and>
   fst (run (trackPing ex_next_day ex_ping) ex_db_no_expiry) \<noteq> (403, Json_error ''session expired'')"
proof -
  have a: "http_method ex_ping = ''POST''"
    "ping_sid ex_ping = Inr ''SID_lx1abc_K7QPM''" "''SID_lx1abc_K7QPM'' \<noteq> []"
    "ping_tok ex_ping = Inr ex_token" "ex_token \<noteq> []"
    "ping_lat ex_ping = Inr (Fin (- 12921) (- 4))" "Fin (- 12921) (- 4) \<noteq> NaN"
    "ping_lng ex_ping = Inr (Fin 368219 (- 4))" "Fin 368219 (- 4) \<noteq> NaN"
    "ping_acc ex_ping = Inr (Fin 12 0)"
    "sessions_where_sessionId ex_db_no_expiry ''SID_lx1abc_K7QPM''
       = Some (ex_session\<lparr>expiresAt := ExpValue JUndefined\<rparr>)"
    "truthy (isActive (ex_session\<lparr>expiresAt := ExpValue JUndefined\<rparr>))"
    "ToString (js_or (token (ex_session\<lparr>expiresAt := ExpValue JUndefined\<rparr>)) (JStr []))
       = Inr ex_token"
    by code_simp+
  have b: "doc_id (orgId (ex_session\<lparr>expiresAt := ExpValue JUndefined\<rparr>)) = Some ''org1''"
    "doc_id (studentId (ex_session\<lparr>expiresAt := ExpValue JUndefined\<rparr>)) = Some ''st1''"
    "tsToMillis (ExpValue JUndefined) = Fin 0 0"
    by code_simp+
  from expired_iff_nonzero_expiry_passed [OF a, of ex_next_day "''org1''" "''st1''"] b
  show ?thesis
    by simp
qed

text \<open>
  C10 as stated fails in its second sentence: an expiry instant of one second before
  1970 is not a positive value, and the ping is answered \<^verbatim>\<open>session expired\<close>.
\<close>

theorem expired_with_negative_expiry_counterexample:
  "sessions_where_sessionId ex_db_old_expiry ''SID_lx1abc_K7QPM''
     = Some (ex_session\<lparr>expiresAt := ExpTimestamp (- 1000)\<rparr>) \<and>
   tsToMillis (ExpTimestamp (- 1000)) = Fin (- 1000) 0 \<and>
   \<not> num_lt (Fin 0 0) (tsToMillis (ExpTimestamp (- 1000))) \<and>
   fst (run (trackPing ex_env ex_ping) ex_db_old_expiry) = (403, Json_error ''session expired'') \<and>
   (fst (run (trackPing ex_env ex_ping) ex_db_old_expiry) = (403, Json_error ''session expired''))
     \<noteq> (num_lt (Fin 0 0) (tsToMillis (ExpTimestamp (- 1000))) \<and>
         num_lt (tsToMillis (ExpTimestamp (- 1000))) (Fin (Date_now ex_env) 0))"
  by code_simp

section \<open>Numeric inputs\<close>

text \<open>
  C9 (as the code has it).  When the latitude or the longitude of a ping converts to
  NaN, the handler is its response alone, status 400 (\<^verbatim>\<open>lat/lng invalid\<close>, or
  \<^verbatim>\<open>sid and tok required\<close> when one of these is empty): no store call is made
  and the store is unchanged.  The accuracy of a ping and the amount of a payment
  event are not checked: a falsy value is replaced by 0 before the conversion.
\<close>

theorem nan_coordinates_rejected:
  assumes "http_method req = ''POST''"
    and "ping_sid req = Inr sid" "ping_tok req = Inr tok"
    and "ping_lat req = Inr lat" "ping_lng req = Inr lng" "ping_acc req = Inr acc"
    and "lat = NaN \<or> lng = NaN"
  shows "run (trackPing env req) d =
       ((400, Json_error (if sid = [] \<or> tok = [] then ''sid and tok required''
                          else ''lat/lng invalid'')), d, []) \<and>
     response_of (trackPing env req) =
       Some (400, Json_error (if sid = [] \<or> tok = [] then ''sid and tok required''
                              else ''lat/lng invalid'')) \<and>
     (\<not> truthy (get_prop (ping_body req) ''acc'') \<longrightarrow> acc = Fin 0 0) \<and>
     (\<not> truthy (get_prop (event_data req') ''amount'') \<longrightarrow> event_amount req' = Inr (Fin 0 0))"
  using assms(6,7)
  by (auto simp: trackPing_gated [OF assms(1-6)] ping_acc_def event_amount_def js_or_def)

text \<open>A latitude of \<^verbatim>\<open>"north"\<close>, and a payment event without an amount.\<close>

theorem nan_coordinates_rejected_witness:
  "ping_lat ex_ping_text_lat = Inr NaN \<and>
   run (trackPing ex_env ex_ping_text_lat) ex_db = ((400, Json_error ''lat/lng invalid''), ex_db, []) \<and>
   response_of (trackPing ex_env ex_ping_text_lat) = Some (400, Json_error ''lat/lng invalid'') \<and>
   event_amount ex_no_amount = Inr (Fin 0 0)"
proof -
  have a: "http_method ex_ping_text_lat = ''POST''"
    "ping_sid ex_ping_text_lat = Inr ''SID_lx1abc_K7QPM''"
    "ping_tok ex_ping_text_lat = Inr ex_token"
    "ping_lat ex_ping_text_lat = Inr NaN"
    "ping_lng ex_ping_text_lat = Inr (Fin 368219 (- 4))"
    "ping_acc ex_ping_text_lat = Inr (Fin 12 0)"
    by code_simp+
  have b: "NaN = NaN \<or> Fin 368219 (- 4) = NaN"
    by simp
  have c: "''SID_lx1abc_K7QPM'' \<noteq> []" "ex_token \<noteq> []"
    "\<not> truthy (get_prop (event_data ex_no_amount) ''amount'')"
    by code_simp+
  from nan_coordinates_rejected [OF a b, of ex_env ex_db ex_no_amount] a(4) c show ?thesis
    by simp
qed

text \<open>
  C9 as stated fails for the accuracy and for the amount: the text \<^verbatim>\<open>"abc"\<close>
  converts to NaN, the ping is accepted and NaN is stored as its accuracy; the
  payment is accepted and NaN is recorded as its amount; and an absent amount, whose
  conversion would be NaN, is taken as 0.
\<close>

theorem unchecked_numbers_counterexample:
  "ping_acc ex_ping_text_acc = Inr NaN \<and>
   fst (run (trackPing ex_env ex_ping_text_acc) ex_db) = (200, Json_ok) \<and>
   map_of (snd (last (locations (fst (snd (run (trackPing ex_env ex_ping_text_acc) ex_db))))))
     ''acc'' = Some (FVal (JNum NaN)) \<and>
   event_amount ex_text_amount = Inr NaN \<and>
   fst (run (paystackWebhook ex_env ex_text_amount) ex_db) = (200, Send ''OK'') \<and>
   map_of (paystack_events (fst (snd (run (paystackWebhook ex_env ex_text_amount) ex_db)))) ''R5''
     = Some (ledger_entry ex_env ''a@x.com'' NaN) \<and>
   ToNumber (get_prop (event_data ex_no_amount) ''amount'') = Inr NaN \<and>
   event_amount ex_no_amount = Inr (Fin 0 0)"
  by code_simp

section \<open>Token validation\<close>

text \<open>
  A ping whose token differs from the stored one, whatever the lengths, is answered
  403 \<^verbatim>\<open>bad token\<close> and writes nothing.  The comparison is \<^verbatim>\<open>!==\<close> on two
  strings; how long it runs is outside this model.
\<close>

lemma wrong_token_rejected:
  assumes "http_method req = ''POST''"
    and "ping_sid req = Inr sid" "sid \<noteq> []" "ping_tok req = Inr tok" "tok \<noteq> []"
    and "ping_lat req = Inr lat" "lat \<noteq> NaN" "ping_lng req = Inr lng" "lng \<noteq> NaN"
    and "ping_acc req = Inr acc"
    and "sessions_where_sessionId d sid = Some sess"
    and "truthy (isActive sess)" "ToString (js_or (token sess) (JStr [])) = Inr stored"
    and "stored \<noteq> tok"
  shows "run (trackPing env req) d = ((403, Json_error ''bad token''), d, [])"
  using assms(3,5,7,9,11-14)
  by (simp add: trackPing_gated [OF assms(1,2,4,6,8,10)] ping_session_def)

end
